theory Spec2Isabelle
  imports Complex_Main
begin

section \<open>Data model\<close>

text \<open>
  A Python \<^verbatim>\<open>datetime\<close> (naive, as \<^verbatim>\<open>datetime.now()\<close> returns it and as the
  \<^verbatim>\<open>TIMESTAMP\<close> columns store it) is the number of microseconds since the epoch.
  Strings are lists of \<^typ>\<open>char\<close>: the model covers texts whose code points are below 256.
\<close>

type_synonym datetime = int

definition timedelta_days :: "int \<Rightarrow> int" where
  "timedelta_days n = n * 86400000000"

definition date_of :: "datetime \<Rightarrow> int" where
  \<comment> \<open>\<^verbatim>\<open>datetime.date()\<close> and SQL \<^verbatim>\<open>DATE(ts)\<close>: the day number.\<close>
  "date_of t = t div 86400000000"

text \<open>
  The dictionary every scraper appends to its result: the keys \<^verbatim>\<open>title\<close>,
  \<^verbatim>\<open>content\<close>, \<^verbatim>\<open>image_url\<close>, \<^verbatim>\<open>source\<close>, \<^verbatim>\<open>publish_date\<close>, \<^verbatim>\<open>url\<close>.
  \<^verbatim>\<open>None\<close> (SQL \<^verbatim>\<open>NULL\<close>) is \<^term>\<open>None\<close>.
\<close>

record article =
  title :: string
  content :: string
  image_url :: "string option"
  source :: string
  publish_date :: "datetime option"
  url :: string

text \<open>A row of the table \<^verbatim>\<open>news\<close> created by \<^verbatim>\<open>setup_database\<close>.\<close>

record news_row = article +
  news_id :: string
  category :: string
  is_active :: bool
  created_at :: datetime
  updated_at :: datetime

section \<open>The database connection\<close>

text \<open>
  The statements the service sends through \<^verbatim>\<open>cursor.execute\<close>, with the parameters
  that identify them.
\<close>

datatype statement =
    SelectId string
  | UpdateNews string
  | InsertNews string
  | DeactivateOld datetime
  | CategoryCounts
  | TotalActive
  | TodayCount int
  | SelectNews "string option" int
  | Commit

text \<open>
  A connection is opened with \<^verbatim>\<open>psycopg2.connect\<close> and never set to autocommit, so
  its statements run in one transaction: \<^term>\<open>news c\<close> is the table as that transaction
  sees it and \<^term>\<open>committed c\<close> the table the store holds, which only a commit
  changes. The connection also holds the journal of the statements sent so far, the value
  of SQL \<^verbatim>\<open>NOW()\<close>, and the database's verdict on each statement:
  \<^term>\<open>raises c s = Some m\<close> when executing \<^term>\<open>s\<close> raises an exception with text
  \<^term>\<open>m\<close> (connection lost, value too long for its column, timeout, transaction already
  aborted).
\<close>

record conn =
  news :: "news_row list"
  journal :: "statement list"
  db_now :: datetime
  raises :: "statement \<Rightarrow> string option"
  committed :: "news_row list"

definition cursor_execute :: "conn \<Rightarrow> statement \<Rightarrow> conn \<times> string option" where
  \<comment> \<open>the statement is sent (journalled); the second component is the exception, if any\<close>
  "cursor_execute c s = (c\<lparr>journal := journal c @ [s]\<rparr>, raises c s)"

definition fetchone :: "'a list \<Rightarrow> 'a option" where
  "fetchone rs = (case rs of [] \<Rightarrow> None | r # _ \<Rightarrow> Some r)"

definition select_id :: "news_row list \<Rightarrow> string \<Rightarrow> string list" where
  \<comment> \<open>\<^verbatim>\<open>SELECT id FROM news WHERE url = %s\<close>\<close>
  "select_id tbl u = map news_id (filter (\<lambda>r. url r = u) tbl)"

definition update_news :: "news_row list \<Rightarrow> article \<Rightarrow> string \<Rightarrow> datetime \<Rightarrow> news_row list" where
  \<comment> \<open>\<^verbatim>\<open>UPDATE news SET title = .., content = .., image_url = .., source = ..,
      publish_date = .., category = .., is_active = TRUE, updated_at = NOW() WHERE url = %s\<close>\<close>
  "update_news tbl a cat t =
     map (\<lambda>r. if url r = url a
               then r\<lparr>title := title a, content := content a, image_url := image_url a,
                      source := source a, publish_date := publish_date a,
                      category := cat, is_active := True, updated_at := t\<rparr>
               else r) tbl"

definition new_row :: "string \<Rightarrow> article \<Rightarrow> string \<Rightarrow> datetime \<Rightarrow> news_row" where
  "new_row i a cat t =
     \<lparr>title = title a, content = content a, image_url = image_url a, source = source a,
      publish_date = publish_date a, url = url a,
      news_id = i, category = cat, is_active = True, created_at = t, updated_at = t\<rparr>"

definition insert_news ::
  "news_row list \<Rightarrow> string \<Rightarrow> article \<Rightarrow> string \<Rightarrow> datetime \<Rightarrow> string + news_row list" where
  \<comment> \<open>\<^verbatim>\<open>INSERT INTO news (id, title, content, image_url, source, publish_date, category,
      url, is_active) VALUES (.., TRUE)\<close>; the column \<^verbatim>\<open>url\<close> is \<^verbatim>\<open>UNIQUE\<close>\<close>
  "insert_news tbl i a cat t =
     (if url a \<in> set (map url tbl)
      then Inl ''duplicate key value violates unique constraint''
      else Inr (tbl @ [new_row i a cat t]))"

definition stale :: "datetime \<Rightarrow> news_row \<Rightarrow> bool" where
  \<comment> \<open>\<^verbatim>\<open>publish_date < %s AND is_active = TRUE\<close>; a comparison with \<^verbatim>\<open>NULL\<close> is not true\<close>
  "stale cutoff r =
     ((case publish_date r of None \<Rightarrow> False | Some d \<Rightarrow> d < cutoff) \<and> is_active r)"

definition deactivate_old :: "news_row list \<Rightarrow> datetime \<Rightarrow> datetime \<Rightarrow> news_row list" where
  \<comment> \<open>\<^verbatim>\<open>UPDATE news SET is_active = FALSE, updated_at = NOW()
      WHERE publish_date < %s AND is_active = TRUE\<close>\<close>
  "deactivate_old tbl cutoff t =
     map (\<lambda>r. if stale cutoff r then r\<lparr>is_active := False, updated_at := t\<rparr> else r) tbl"

section \<open>Database operations\<close>

text \<open>
  \<^verbatim>\<open>upsert_article(conn, article, category)\<close>: the fourth argument is the value of
  \<^verbatim>\<open>str(uuid.uuid4())\<close>. Every exception is caught and turned into \<^verbatim>\<open>return False\<close>.
\<close>

definition upsert_article :: "conn \<Rightarrow> article \<Rightarrow> string \<Rightarrow> string \<Rightarrow> conn \<times> bool" where
  "upsert_article c a cat new_id =
     (case cursor_execute c (SelectId (url a)) of
        (c1, Some e) \<Rightarrow> (c1, False)
      | (c1, None) \<Rightarrow>
          (case fetchone (select_id (news c1) (url a)) of
             Some existing \<Rightarrow>
               (case cursor_execute c1 (UpdateNews (url a)) of
                  (c2, Some e) \<Rightarrow> (c2, False)
                | (c2, None) \<Rightarrow> (c2\<lparr>news := update_news (news c2) a cat (db_now c2)\<rparr>, False))
           | None \<Rightarrow>
               (case cursor_execute c1 (InsertNews (url a)) of
                  (c2, Some e) \<Rightarrow> (c2, False)
                | (c2, None) \<Rightarrow>
                    (case insert_news (news c2) new_id a cat (db_now c2) of
                       Inl e \<Rightarrow> (c2, False)
                     | Inr tbl \<Rightarrow> (c2\<lparr>news := tbl\<rparr>, True)))))"

text \<open>
  \<^verbatim>\<open>deactivate_old_articles(conn)\<close>: the second argument is \<^verbatim>\<open>datetime.now()\<close>.
  An exception is caught and logged; the function returns nothing.
\<close>

definition deactivate_old_articles :: "conn \<Rightarrow> datetime \<Rightarrow> conn" where
  "deactivate_old_articles c now =
     (let cutoff_date = now - timedelta_days 7 in
      case cursor_execute c (DeactivateOld cutoff_date) of
        (c1, Some e) \<Rightarrow> c1
      | (c1, None) \<Rightarrow> c1\<lparr>news := deactivate_old (news c1) cutoff_date (db_now c1)\<rparr>)"

text \<open>
  The dictionary \<^verbatim>\<open>get_summary_stats\<close> returns; the empty dictionary it returns after
  an exception is \<^term>\<open>None\<close>.
\<close>

record summary =
  total_active :: nat
  today_count :: nat
  category_stats :: "(string \<times> nat) list"

definition category_counts :: "news_row list \<Rightarrow> (string \<times> nat) list" where
  \<comment> \<open>\<^verbatim>\<open>SELECT category, COUNT(*) as count FROM news WHERE is_active = TRUE
      GROUP BY category ORDER BY count DESC\<close> (SQL leaves the order of equal counts open)\<close>
  "category_counts tbl =
     (let active = filter is_active tbl in
      sort_key (\<lambda>(k, n). - int n)
        (map (\<lambda>k. (k, length (filter (\<lambda>r. category r = k) active)))
             (remdups (map category active))))"

definition published_on :: "int \<Rightarrow> news_row \<Rightarrow> bool" where
  \<comment> \<open>\<^verbatim>\<open>DATE(publish_date) = %s\<close>\<close>
  "published_on day r = (case publish_date r of None \<Rightarrow> False | Some d \<Rightarrow> date_of d = day)"

definition get_summary_stats :: "conn \<Rightarrow> datetime \<Rightarrow> conn \<times> summary option" where
  \<comment> \<open>the second argument is \<^verbatim>\<open>datetime.now()\<close>\<close>
  "get_summary_stats c now =
     (case cursor_execute c CategoryCounts of
        (c1, Some e) \<Rightarrow> (c1, None)
      | (c1, None) \<Rightarrow>
          (let stats = category_counts (news c1) in
           case cursor_execute c1 TotalActive of
             (c2, Some e) \<Rightarrow> (c2, None)
           | (c2, None) \<Rightarrow>
               (let active = length (filter is_active (news c2));
                    today = date_of now in
                case cursor_execute c2 (TodayCount today) of
                  (c3, Some e) \<Rightarrow> (c3, None)
                | (c3, None) \<Rightarrow>
                    (c3, Some \<lparr>total_active = active,
                               today_count = length (filter (published_on today) (news c3)),
                               category_stats = stats\<rparr>))))"

section \<open>Categorization\<close>

text \<open>
  The zero-shot classifier is a library object: called with the text and the candidate
  labels it raises (\<^term>\<open>Inl\<close>) or returns a dictionary with the lists \<^verbatim>\<open>labels\<close> and
  \<^verbatim>\<open>scores\<close>. Scores are real numbers.
\<close>

record classification =
  labels :: "string list"
  scores :: "real list"

type_synonym classifier = "string \<Rightarrow> string list \<Rightarrow> string + classification"

definition category_descriptions :: "(string \<times> string) list" where
  "category_descriptions =
    [(''crop_pests'', ''Information about crop diseases, pests, and plant health issues''),
     (''market_prices'', ''Agricultural market prices, commodity prices, and market trends''),
     (''weather_advisory'',
      ''Weather forecasts, climate information, and weather-related agricultural advice''),
     (''policy_update'', ''Government policies, regulations, and agricultural policy changes''),
     (''technology_innovation'',
      ''New agricultural technologies, innovations, and farming methods''),
     (''fertilizer_seeds'', ''Information about fertilizers, seeds, and agricultural inputs''),
     (''irrigation_water'',
      ''Irrigation systems, water management, and water-related agricultural topics''),
     (''livestock_dairy'', ''Livestock farming, dairy production, and animal husbandry''),
     (''organic_farming'',
      ''Organic farming practices, sustainable agriculture, and eco-friendly farming'')]"

fun map_back :: "(string \<times> string) list \<Rightarrow> string \<Rightarrow> real \<Rightarrow> string" where
  \<comment> \<open>the loop over \<^verbatim>\<open>category_descriptions.items()\<close>\<close>
  "map_back [] best_label best_score = ''uncategorized''"
| "map_back ((cat, description) # rest) best_label best_score =
     (if description = best_label
      then (if best_score > 0.3 then cat else ''uncategorized'')
      else map_back rest best_label best_score)"

text \<open>
  \<^verbatim>\<open>NewsCategorizer.categorize_article\<close>: the first argument is \<^verbatim>\<open>self.classifier\<close>,
  \<^term>\<open>None\<close> when the model failed to load. \<^verbatim>\<open>result['scores'][0]\<close> and
  \<^verbatim>\<open>result['labels'][0]\<close> raise on an empty list; every exception yields
  \<^verbatim>\<open>"uncategorized"\<close>.
\<close>

definition categorize_article :: "classifier option \<Rightarrow> string \<Rightarrow> string \<Rightarrow> string" where
  "categorize_article cl ttl body =
     (case cl of
        None \<Rightarrow> ''uncategorized''
      | Some classify \<Rightarrow>
          (let txt = take 1000 (ttl @ '' '' @ body);
               candidate_labels = map snd category_descriptions
           in case classify txt candidate_labels of
                Inl e \<Rightarrow> ''uncategorized''
              | Inr result \<Rightarrow>
                  (case scores result of
                     [] \<Rightarrow> ''uncategorized''
                   | best_score # _ \<Rightarrow>
                       (case labels result of
                          [] \<Rightarrow> ''uncategorized''
                        | best_label # _ \<Rightarrow>
                            map_back category_descriptions best_label best_score))))"

section \<open>Date extraction\<close>

text \<open>
  The characters \<^verbatim>\<open>\d\<close> and \<^verbatim>\<open>\s\<close> match, below code point 256: the ten decimal digits,
  and the white space of Python (tab to carriage return, the four separators 28 to 31,
  space, next line, no-break space).
\<close>

definition is_digit :: "char \<Rightarrow> bool" where
  "is_digit c = (c \<in> set ''0123456789'')"

definition is_space :: "char \<Rightarrow> bool" where
  "is_space c = ((of_char c :: nat) \<in> {9, 10, 11, 12, 13, 28, 29, 30, 31, 32, 133, 160})"

text \<open>
  The fragment of Python's regular expressions the date patterns use. A match is found by
  backtracking: \<^term>\<open>rmatch r s\<close> lists, in the order Python tries them, the rests of
  \<^term>\<open>s\<close> after each way of matching \<^term>\<open>r\<close> at its start.
\<close>

datatype regex =
    Eps
  | Digit
  | Space
  | Lit string
  | Cat regex regex
  | Alt regex regex
  | Plus regex

fun rmatch :: "regex \<Rightarrow> string \<Rightarrow> string list" where
  "rmatch Eps s = [s]"
| "rmatch Digit s = (case s of [] \<Rightarrow> [] | c # cs \<Rightarrow> if is_digit c then [cs] else [])"
| "rmatch Space s = (case s of [] \<Rightarrow> [] | c # cs \<Rightarrow> if is_space c then [cs] else [])"
| "rmatch (Lit l) s = (if take (length l) s = l then [drop (length l) s] else [])"
| "rmatch (Cat r1 r2) s = concat (map (rmatch r2) (rmatch r1 s))"
| "rmatch (Alt r1 r2) s = rmatch r1 s @ rmatch r2 s"
| "rmatch (Plus r) s =
     concat (map (\<lambda>s'. (if length s' < length s then rmatch (Plus r) s' else []) @ [s'])
                 (rmatch r s))"

fun re_search :: "regex \<Rightarrow> string \<Rightarrow> string option" where
  \<comment> \<open>\<^verbatim>\<open>re.search(pattern, text)\<close> followed by \<^verbatim>\<open>match.group(1)\<close>: every pattern is one
      group, so the group is the whole match, the leftmost one\<close>
  "re_search r s =
     (case rmatch r s of
        rest # _ \<Rightarrow> Some (take (length s - length rest) s)
      | [] \<Rightarrow> (case s of [] \<Rightarrow> None | _ # t \<Rightarrow> re_search r t))"

declare re_search.simps [simp del]

definition seq :: "regex list \<Rightarrow> regex" where
  "seq rs = foldr Cat rs Eps"

definition alternatives :: "regex list \<Rightarrow> regex" where
  "alternatives rs = foldr Alt (butlast rs) (last rs)"

definition digits :: "nat \<Rightarrow> regex list" where
  \<comment> \<open>\<^verbatim>\<open>\d{n}\<close>\<close>
  "digits n = replicate n Digit"

definition nepali_months :: "string list" where
  "nepali_months =
     [''Baisakh'', ''Jestha'', ''Asar'', ''Shrawan'', ''Bhadra'', ''Ashoj'',
      ''Kartik'', ''Mangsir'', ''Poush'', ''Magh'', ''Falgun'', ''Chaitra'']"

definition date_patterns :: "regex list" where
  "date_patterns =
     [seq (digits 4 @ [Lit ''-''] @ digits 2 @ [Lit ''-''] @ digits 2),
      seq (digits 2 @ [Lit ''/''] @ digits 2 @ [Lit ''/''] @ digits 4),
      seq (digits 2 @ [Lit ''-''] @ digits 2 @ [Lit ''-''] @ digits 4),
      seq ([Digit, Alt Digit Eps, Plus Space, alternatives (map Lit nepali_months), Plus Space]
           @ digits 4)]"

text \<open>
  \<^verbatim>\<open>extract_date_from_text\<close>: the first argument is \<^verbatim>\<open>dateutil.parser.parse\<close>, a library
  function, \<^term>\<open>None\<close> where it raises.
\<close>

fun try_patterns :: "(string \<Rightarrow> datetime option) \<Rightarrow> regex list \<Rightarrow> string \<Rightarrow> datetime option" where
  "try_patterns parse [] txt = None"
| "try_patterns parse (pattern # rest) txt =
     (case re_search pattern txt of
        None \<Rightarrow> try_patterns parse rest txt
      | Some date_str \<Rightarrow>
          (case parse date_str of
             Some d \<Rightarrow> Some d
           | None \<Rightarrow> try_patterns parse rest txt))"

definition extract_date_from_text :: "(string \<Rightarrow> datetime option) \<Rightarrow> string \<Rightarrow> datetime option" where
  "extract_date_from_text parse txt =
     (if txt = [] then None else try_patterns parse date_patterns txt)"

section \<open>Parsed pages\<close>

text \<open>
  What \<^verbatim>\<open>BeautifulSoup(response.content, 'html.parser')\<close> returns: a tree of tags, each
  with its name, its attribute dictionary and its children, and of strings. The document
  itself is a tag.
\<close>

datatype node =
    Text string
  | Tag string "(string \<times> string) list" "node list"

fun descendants :: "node \<Rightarrow> node list" where
  \<comment> \<open>in document order; the node itself is not among them\<close>
  "descendants (Text s) = []"
| "descendants (Tag n a cs) = concat (map (\<lambda>c. c # descendants c) cs)"

fun is_named :: "string \<Rightarrow> node \<Rightarrow> bool" where
  "is_named n (Text s) = False"
| "is_named n (Tag m a cs) = (m = n)"

fun attr :: "node \<Rightarrow> string \<Rightarrow> string option" where
  \<comment> \<open>\<^verbatim>\<open>tag.get(key)\<close>\<close>
  "attr (Text s) k = None"
| "attr (Tag n a cs) k = map_of a k"

function split_ws :: "string \<Rightarrow> string list" where
  \<comment> \<open>the words of a string, as the parser splits a \<^verbatim>\<open>class\<close> attribute\<close>
  "split_ws [] = []"
| "split_ws (c # cs) =
     (if is_space c then split_ws cs
      else (c # takeWhile (\<lambda>x. \<not> is_space x) cs) # split_ws (dropWhile (\<lambda>x. \<not> is_space x) cs))"
  by pat_completeness auto
termination
  by (relation "measure length") (auto simp: less_Suc_eq_le length_dropWhile_le)

definition classes :: "node \<Rightarrow> string list" where
  "classes e = (case attr e ''class'' of None \<Rightarrow> [] | Some v \<Rightarrow> split_ws v)"

definition has_class :: "string \<Rightarrow> node \<Rightarrow> bool" where
  "has_class k e = (k \<in> set (classes e))"

definition find_all :: "node \<Rightarrow> string \<Rightarrow> node list" where
  \<comment> \<open>\<^verbatim>\<open>tag.find_all(name)\<close>\<close>
  "find_all nd n = filter (is_named n) (descendants nd)"

definition find_all_class :: "node \<Rightarrow> string \<Rightarrow> string \<Rightarrow> node list" where
  \<comment> \<open>\<^verbatim>\<open>tag.find_all(name, class_=k)\<close>\<close>
  "find_all_class nd n k = filter (\<lambda>e. is_named n e \<and> has_class k e) (descendants nd)"

definition find_tag :: "node \<Rightarrow> string \<Rightarrow> node option" where
  \<comment> \<open>\<^verbatim>\<open>tag.find(name)\<close>: the first match or \<^verbatim>\<open>None\<close>\<close>
  "find_tag nd n = fetchone (find_all nd n)"

definition find_tag_class :: "node \<Rightarrow> string \<Rightarrow> string \<Rightarrow> node option" where
  "find_tag_class nd n k = fetchone (find_all_class nd n k)"

text \<open>The CSS selectors the generic scraper passes to \<^verbatim>\<open>select\<close> and \<^verbatim>\<open>select_one\<close>.\<close>

datatype selector =
    ByName string
  | ByClass string
  | DivClassContains string

fun contains :: "string \<Rightarrow> string \<Rightarrow> bool" where
  \<comment> \<open>\<^term>\<open>contains x s\<close>: \<^term>\<open>x\<close> occurs in \<^term>\<open>s\<close>\<close>
  "contains x [] = (x = [])"
| "contains x (c # cs) = (take (length x) (c # cs) = x \<or> contains x cs)"

definition join_spaces :: "string list \<Rightarrow> string" where
  "join_spaces ws = (case ws of [] \<Rightarrow> [] | w # rest \<Rightarrow> w @ concat (map (\<lambda>v. '' '' @ v) rest))"

fun selects :: "selector \<Rightarrow> node \<Rightarrow> bool" where
  "selects sel (Text s) = False"
| "selects (ByName n) (Tag m a cs) = (m = n)"
| "selects (ByClass k) (Tag m a cs) = has_class k (Tag m a cs)"
| "selects (DivClassContains x) (Tag m a cs) =
     (m = ''div'' \<and> map_of a ''class'' \<noteq> None \<and> contains x (join_spaces (classes (Tag m a cs))))"

definition select :: "node \<Rightarrow> selector \<Rightarrow> node list" where
  "select nd sel = filter (selects sel) (descendants nd)"

definition select_one :: "node \<Rightarrow> selector \<Rightarrow> node option" where
  "select_one nd sel = fetchone (select nd sel)"

fun strings :: "node \<Rightarrow> string list" where
  "strings (Text s) = [s]"
| "strings (Tag n a cs) = concat (map strings cs)"

definition strip :: "string \<Rightarrow> string" where
  "strip s = rev (dropWhile is_space (rev (dropWhile is_space s)))"

definition get_text :: "node \<Rightarrow> string" where
  \<comment> \<open>\<^verbatim>\<open>tag.get_text()\<close>\<close>
  "get_text e = concat (strings e)"

definition get_text_strip :: "node \<Rightarrow> string" where
  \<comment> \<open>\<^verbatim>\<open>tag.get_text(strip=True)\<close>: every string stripped, the empty ones left out\<close>
  "get_text_strip e = concat (filter (\<lambda>s. s \<noteq> []) (map strip (strings e)))"

definition or_else :: "'a option \<Rightarrow> 'a option \<Rightarrow> 'a option" where
  \<comment> \<open>Python's \<^verbatim>\<open>x or y\<close> on a tag or \<^verbatim>\<open>None\<close>: a tag is always true\<close>
  "or_else x y = (case x of Some v \<Rightarrow> Some v | None \<Rightarrow> y)"

definition or_list :: "'a list \<Rightarrow> 'a list \<Rightarrow> 'a list" where
  \<comment> \<open>Python's \<^verbatim>\<open>xs or ys\<close> on lists: an empty list is false\<close>
  "or_list xs ys = (if xs \<noteq> [] then xs else ys)"

section \<open>Scrapers\<close>

text \<open>
  The libraries, the network and the clocks the service depends on:
  \<^item> \<^verbatim>\<open>session.get\<close> with \<^verbatim>\<open>raise_for_status\<close> and the HTML parser (\<^term>\<open>Inl\<close> the
    exception), \<^verbatim>\<open>urllib.parse.urljoin\<close> (\<^term>\<open>Inl\<close> where it raises),
    \<^verbatim>\<open>dateutil.parser.parse\<close> (\<^term>\<open>None\<close> where it raises), and the
    \<^verbatim>\<open>datetime.now()\<close> of the scrape;
  \<^item> the outcome of \<^verbatim>\<open>setup_database()\<close> (\<^term>\<open>Some\<close> the exception it re-raises), the
    classifier \<^verbatim>\<open>NewsCategorizer()\<close> ends up with, the outcome of
    \<^verbatim>\<open>psycopg2.connect\<close>, the values of \<^verbatim>\<open>uuid.uuid4()\<close>, and the
    \<^verbatim>\<open>datetime.now()\<close> of the deactivation and of the summary;
  \<^item> for the API, the builtin \<^verbatim>\<open>int\<close> on a string (\<^term>\<open>Inl\<close> the text of its
    \<^verbatim>\<open>ValueError\<close>) and \<^verbatim>\<open>datetime.isoformat\<close>.
\<close>

record world =
  fetch :: "string \<Rightarrow> string + node"
  urljoin :: "string \<Rightarrow> string \<Rightarrow> string + string"
  date_parse :: "string \<Rightarrow> datetime option"
  scrape_now :: datetime
  setup_database :: "string option"
  loaded_classifier :: "classifier option"
  connect :: "string + conn"
  uuid4 :: "nat \<Rightarrow> string"
  deactivate_now :: datetime
  summary_now :: datetime
  py_int :: "string \<Rightarrow> string + int"
  isoformat :: "datetime \<Rightarrow> string"

definition joined :: "world \<Rightarrow> string \<Rightarrow> node option \<Rightarrow> string \<Rightarrow> string + string option" where
  \<comment> \<open>\<^verbatim>\<open>urljoin(base, elem[key]) if elem and elem.get(key) else None\<close>\<close>
  "joined w base elem k =
     (case elem of
        None \<Rightarrow> Inr None
      | Some e \<Rightarrow>
          (case attr e k of
             None \<Rightarrow> Inr None
           | Some v \<Rightarrow>
               if v = [] then Inr None
               else (case urljoin w base v of Inl err \<Rightarrow> Inl err | Inr u \<Rightarrow> Inr (Some u))))"

definition narc_title :: "node \<Rightarrow> string" where
  \<comment> \<open>\<^verbatim>\<open>title_elem = item.find('h2') or item.find('h3') or item.find('a')\<close>\<close>
  "narc_title item =
     (case or_else (find_tag item ''h2'') (or_else (find_tag item ''h3'') (find_tag item ''a'')) of
        Some title_elem \<Rightarrow> get_text_strip title_elem
      | None \<Rightarrow> ''No title'')"

definition narc_item :: "world \<Rightarrow> string \<Rightarrow> node \<Rightarrow> article option" where
  \<comment> \<open>the body of the loop of \<^verbatim>\<open>scrape_narc_news\<close>; \<^term>\<open>None\<close> when the item is skipped
      (no link, or an exception)\<close>
  "narc_item w base_url item =
     (let ttl = narc_title item in
      case joined w base_url (find_tag item ''a'') ''href'' of
        Inl err \<Rightarrow> None
      | Inr None \<Rightarrow> None
      | Inr (Some u) \<Rightarrow>
          if u = [] then None
          else
            (let body = (case or_else (find_tag item ''p'') (find_tag_class item ''div'' ''excerpt'') of
                           Some content_elem \<Rightarrow> get_text_strip content_elem
                         | None \<Rightarrow> [])
             in case joined w base_url (find_tag item ''img'') ''src'' of
                  Inl err \<Rightarrow> None
                | Inr img \<Rightarrow>
                    (let extracted =
                           (case or_else (find_tag item ''time'') (find_tag_class item ''span'' ''date'') of
                              Some date_elem \<Rightarrow> extract_date_from_text (date_parse w) (get_text date_elem)
                            | None \<Rightarrow> None)
                     in Some \<lparr>title = ttl, content = body, image_url = img,
                              source = ''Nepal Agricultural Research Council'',
                              publish_date =
                                Some (case extracted of Some d \<Rightarrow> d | None \<Rightarrow> scrape_now w),
                              url = u\<rparr>)))"

definition scrape_narc_news :: "world \<Rightarrow> string \<Rightarrow> article list" where
  "scrape_narc_news w base_url =
     (case fetch w base_url of
        Inl err \<Rightarrow> []
      | Inr soup \<Rightarrow>
          (let news_items =
                 or_list (find_all_class soup ''div'' ''news-item'')
                   (or_list (find_all soup ''article'') (find_all_class soup ''div'' ''post''))
           in List.map_filter (narc_item w base_url) (take 10 news_items)))"

fun first_selected :: "node \<Rightarrow> selector list \<Rightarrow> node option" where
  \<comment> \<open>the loop \<^verbatim>\<open>for selector in selectors: elem = item.select_one(selector);
      if elem: ...; break\<close>\<close>
  "first_selected item [] = None"
| "first_selected item (sel # rest) =
     (case select_one item sel of Some elem \<Rightarrow> Some elem | None \<Rightarrow> first_selected item rest)"

definition title_selectors :: "selector list" where
  "title_selectors = [ByName ''h1'', ByName ''h2'', ByName ''h3'', ByClass ''title'', ByClass ''headline'']"

definition content_selectors :: "selector list" where
  "content_selectors = [ByName ''p'', ByClass ''excerpt'', ByClass ''summary'', ByClass ''content'']"

definition date_selectors :: "selector list" where
  "date_selectors = [ByName ''time'', ByClass ''date'', ByClass ''published'', ByClass ''timestamp'']"

definition container_selectors :: "selector list" where
  "container_selectors =
     [ByName ''article'', ByClass ''post'', ByClass ''news-item'', ByClass ''entry'', ByClass ''story'',
      DivClassContains ''news'', DivClassContains ''article'', DivClassContains ''post'']"

definition generic_title :: "node \<Rightarrow> string" where
  "generic_title item =
     (case first_selected item title_selectors of
        Some title_elem \<Rightarrow> get_text_strip title_elem
      | None \<Rightarrow> ''No title'')"

fun first_date :: "world \<Rightarrow> node \<Rightarrow> selector list \<Rightarrow> datetime option" where
  \<comment> \<open>the date loop: a selected element whose text holds no date does not end the loop\<close>
  "first_date w item [] = None"
| "first_date w item (sel # rest) =
     (case select_one item sel of
        None \<Rightarrow> first_date w item rest
      | Some date_elem \<Rightarrow>
          (case extract_date_from_text (date_parse w) (get_text date_elem) of
             Some extracted_date \<Rightarrow> Some extracted_date
           | None \<Rightarrow> first_date w item rest))"

definition generic_item :: "world \<Rightarrow> string \<Rightarrow> string \<Rightarrow> node \<Rightarrow> article option" where
  \<comment> \<open>the body of the loop of \<^verbatim>\<open>scrape_generic_news\<close>\<close>
  "generic_item w site_name site_url item =
     (let ttl = generic_title item in
      case joined w site_url (find_tag item ''a'') ''href'' of
        Inl err \<Rightarrow> None
      | Inr None \<Rightarrow> None
      | Inr (Some u) \<Rightarrow>
          if u = [] then None
          else
            (let body = (case first_selected item content_selectors of
                           Some content_elem \<Rightarrow> get_text_strip content_elem
                         | None \<Rightarrow> [])
             in case joined w site_url (find_tag item ''img'') ''src'' of
                  Inl err \<Rightarrow> None
                | Inr img \<Rightarrow>
                    Some \<lparr>title = ttl, content = body, image_url = img, source = site_name,
                          publish_date =
                            Some (case first_date w item date_selectors of
                                    Some d \<Rightarrow> d | None \<Rightarrow> scrape_now w),
                          url = u\<rparr>))"

fun first_nonempty :: "node \<Rightarrow> selector list \<Rightarrow> node list" where
  \<comment> \<open>\<^verbatim>\<open>for selector in selectors: news_items = soup.select(selector);
      if news_items: break\<close>\<close>
  "first_nonempty soup [] = []"
| "first_nonempty soup (sel # rest) =
     (if select soup sel \<noteq> [] then select soup sel else first_nonempty soup rest)"

definition scrape_generic_news :: "world \<Rightarrow> string \<Rightarrow> string \<Rightarrow> article list" where
  "scrape_generic_news w site_name site_url =
     (case fetch w site_url of
        Inl err \<Rightarrow> []
      | Inr soup \<Rightarrow>
          List.map_filter (generic_item w site_name site_url)
            (take 10 (first_nonempty soup container_selectors)))"

definition TARGET_URLS :: "(string \<times> string \<times> string) list" where
  \<comment> \<open>name, url, type\<close>
  "TARGET_URLS =
     [(''Nepal Agricultural Research Council'', ''https://narc.gov.np/news'', ''government''),
      (''Krishi Daily'', ''https://krishidaily.com'', ''news''),
      (''Nepal Agricultural Market'', ''https://nam.gov.np/news'', ''market''),
      (''Ministry of Agriculture'', ''https://moald.gov.np/news'', ''government'')]"

definition scrape_site :: "world \<Rightarrow> string \<times> string \<times> string \<Rightarrow> article list" where
  "scrape_site w site_config =
     (case site_config of (site_name, site_url, site_type) \<Rightarrow>
        if site_name = ''Nepal Agricultural Research Council''
        then scrape_narc_news w site_url
        else scrape_generic_news w site_name site_url)"

definition scrape_all_sites :: "world \<Rightarrow> article list" where
  "scrape_all_sites w = concat (map (scrape_site w) TARGET_URLS)"

section \<open>Main pipeline\<close>

record stats =
  new_articles :: nat
  updated_articles :: nat
  errors :: nat

text \<open>
  The loop over the scraped articles. \<^verbatim>\<open>categorize_article\<close> and \<^verbatim>\<open>upsert_article\<close>
  catch every exception themselves and the dictionaries carry every key, so nothing in the
  body reaches the handler that counts \<^verbatim>\<open>stats['errors']\<close>. The number is the index of
  the article, which selects its \<^verbatim>\<open>uuid4\<close> value.
\<close>

fun process_articles :: "world \<Rightarrow> nat \<Rightarrow> article list \<Rightarrow> conn \<Rightarrow> stats \<Rightarrow> conn \<times> stats" where
  "process_articles w k [] c st = (c, st)"
| "process_articles w k (a # rest) c st =
     (let cat = categorize_article (loaded_classifier w) (title a) (content a) in
      case upsert_article c a cat (uuid4 w k) of
        (c', is_new) \<Rightarrow>
          process_articles w (Suc k) rest c'
            (if is_new then st\<lparr>new_articles := new_articles st + 1\<rparr>
             else st\<lparr>updated_articles := updated_articles st + 1\<rparr>))"

datatype log_event =
    NoArticlesFound
  | PipelineSummary stats "summary option"
  | PipelineFailed string

text \<open>
  What a run leaves behind: the counters, the connection it used (if it opened one), whose
  \<^term>\<open>committed\<close> table is what the store holds after the run, and the lines
  \<^verbatim>\<open>run_news_pipeline\<close> itself logs after its start line.
\<close>

record outcome =
  final_stats :: stats
  connection :: "conn option"
  logged :: "log_event list"

text \<open>
  \<^verbatim>\<open>conn.commit()\<close>, the only commit of a run: when it succeeds the store takes the table
  of the transaction; when it raises the store keeps what it held and the transaction is
  rolled back.
\<close>

definition conn_commit :: "conn \<Rightarrow> conn \<times> string option" where
  "conn_commit c =
     (case raises c Commit of
        None \<Rightarrow> (c\<lparr>journal := journal c @ [Commit], committed := news c\<rparr>, None)
      | Some e \<Rightarrow> (c\<lparr>journal := journal c @ [Commit], news := committed c\<rparr>, Some e))"

definition initial_stats :: stats where
  "initial_stats = \<lparr>new_articles = 0, updated_articles = 0, errors = 0\<rparr>"

text \<open>
  The \<^verbatim>\<open>try\<close> block of \<^verbatim>\<open>run_news_pipeline\<close>: \<^term>\<open>Inl\<close> is an exception that leaves
  the block, with the counters and the connection at that point.
\<close>

definition pipeline_body :: "world \<Rightarrow> (string \<times> stats \<times> conn option) + outcome" where
  "pipeline_body w =
     (case setup_database w of
        Some e \<Rightarrow> Inl (e, initial_stats, None)
      | None \<Rightarrow>
          (let articles = scrape_all_sites w in
           if articles = []
           then Inr \<lparr>final_stats = initial_stats, connection = None, logged = [NoArticlesFound]\<rparr>
           else
             (case connect w of
                Inl e \<Rightarrow> Inl (e, initial_stats, None)
              | Inr c0 \<Rightarrow>
                  (case process_articles w 0 articles c0 initial_stats of
                     (c1, st) \<Rightarrow>
                       (let c2 = deactivate_old_articles c1 (deactivate_now w) in
                        case get_summary_stats c2 (summary_now w) of
                          (c3, summary_stats) \<Rightarrow>
                            (case conn_commit c3 of
                               (c4, Some e) \<Rightarrow> Inl (e, st, Some c4)
                             | (c4, None) \<Rightarrow>
                                 Inr \<lparr>final_stats = st, connection = Some c4,
                                      logged = [PipelineSummary st summary_stats]\<rparr>))))))"

text \<open>
  \<^verbatim>\<open>run_news_pipeline()\<close>: \<^term>\<open>Inl\<close> would be an exception that reaches the caller.
  The handler logs the exception and counts it.
\<close>

definition run_news_pipeline :: "world \<Rightarrow> string + outcome" where
  "run_news_pipeline w =
     (case pipeline_body w of
        Inr r \<Rightarrow> Inr r
      | Inl (e, st, c) \<Rightarrow>
          Inr \<lparr>final_stats = st\<lparr>errors := errors st + 1\<rparr>, connection = c,
               logged = [PipelineFailed e]\<rparr>)"

section \<open>REST API\<close>

datatype json =
    JNull
  | JBool bool
  | JInt int
  | JStr string
  | JList "json list"
  | JObj "(string \<times> json) list"

definition by_publish_date_desc :: "news_row list \<Rightarrow> news_row list" where
  \<comment> \<open>\<^verbatim>\<open>ORDER BY publish_date DESC\<close>: \<^verbatim>\<open>NULL\<close> first (SQL leaves the order of equal
      dates open)\<close>
  "by_publish_date_desc rs =
     filter (\<lambda>r. publish_date r = None) rs @
     sort_key (\<lambda>r. case publish_date r of Some d \<Rightarrow> - d | None \<Rightarrow> 0)
       (filter (\<lambda>r. publish_date r \<noteq> None) rs)"

definition select_news :: "news_row list \<Rightarrow> string option \<Rightarrow> int \<Rightarrow> string + news_row list" where
  \<comment> \<open>\<^verbatim>\<open>SELECT id, title, content, image_url, source, publish_date, category, url FROM news
      WHERE is_active = TRUE [AND category = %s] ORDER BY publish_date DESC LIMIT %s\<close>\<close>
  "select_news tbl cat n_limit =
     (if n_limit < 0 then Inl ''LIMIT must not be negative''
      else Inr (take (nat n_limit)
             (by_publish_date_desc
                (filter (\<lambda>r. is_active r \<and> (case cat of None \<Rightarrow> True | Some k \<Rightarrow> category r = k))
                   tbl))))"

definition optional_str :: "string option \<Rightarrow> json" where
  "optional_str v = (case v of None \<Rightarrow> JNull | Some x \<Rightarrow> JStr x)"

definition article_json :: "world \<Rightarrow> news_row \<Rightarrow> json" where
  "article_json w r =
     JObj [(''id'', JStr (news_id r)), (''title'', JStr (title r)), (''content'', JStr (content r)),
           (''image_url'', optional_str (image_url r)), (''source'', JStr (source r)),
           (''publish_date'', optional_str (map_option (isoformat w) (publish_date r))),
           (''category'', JStr (category r)), (''url'', JStr (url r))]"

definition error_response :: "string \<Rightarrow> json \<times> nat" where
  \<comment> \<open>\<^verbatim>\<open>return jsonify({'success': False, 'error': str(e)}), 500\<close>\<close>
  "error_response e = (JObj [(''success'', JBool False), (''error'', JStr e)], 500)"

text \<open>
  \<^verbatim>\<open>get_news()\<close>: the arguments are \<^verbatim>\<open>request.args.get('category')\<close> and
  \<^verbatim>\<open>request.args.get('limit')\<close>; the result is the JSON body with the HTTP status.
\<close>

definition get_news :: "world \<Rightarrow> string option \<Rightarrow> string option \<Rightarrow> json \<times> nat" where
  "get_news w category_arg limit_arg =
     (case connect w of
        Inl e \<Rightarrow> error_response e
      | Inr c \<Rightarrow>
          (case (case limit_arg of None \<Rightarrow> Inr 10 | Some v \<Rightarrow> py_int w v) of
             Inl e \<Rightarrow> error_response e
           | Inr n_limit \<Rightarrow>
               (let cat = (case category_arg of
                             None \<Rightarrow> None
                           | Some k \<Rightarrow> if k = [] then None else Some k)
                in case cursor_execute c (SelectNews cat n_limit) of
                     (c1, Some e) \<Rightarrow> error_response e
                   | (c1, None) \<Rightarrow>
                       (case select_news (news c1) cat n_limit of
                          Inl e \<Rightarrow> error_response e
                        | Inr articles \<Rightarrow>
                            (JObj [(''success'', JBool True),
                                   (''count'', JInt (int (length articles))),
                                   (''articles'', JList (map (article_json w) articles))],
                             200)))))"

definition get_categories :: "world \<Rightarrow> json \<times> nat" where
  "get_categories w =
     (case connect w of
        Inl e \<Rightarrow> error_response e
      | Inr c \<Rightarrow>
          (case cursor_execute c CategoryCounts of
             (c1, Some e) \<Rightarrow> error_response e
           | (c1, None) \<Rightarrow>
               (JObj [(''success'', JBool True),
                      (''categories'',
                       JList (map (\<lambda>(k, n). JObj [(''category'', JStr k), (''count'', JInt (int n))])
                                  (category_counts (news c1))))],
                200)))"

definition field :: "json \<Rightarrow> string \<Rightarrow> json option" where
  \<comment> \<open>the value of a key of a JSON object\<close>
  "field j k = (case j of JObj kvs \<Rightarrow> map_of kvs k | _ \<Rightarrow> None)"

section \<open>Kinds of statements in the journal\<close>

fun is_upsert_statement :: "statement \<Rightarrow> bool" where
  "is_upsert_statement (SelectId u) = True"
| "is_upsert_statement (UpdateNews u) = True"
| "is_upsert_statement (InsertNews u) = True"
| "is_upsert_statement s = False"

fun is_select_id :: "statement \<Rightarrow> bool" where
  "is_select_id (SelectId u) = True"
| "is_select_id s = False"

fun is_summary_query :: "statement \<Rightarrow> bool" where
  "is_summary_query CategoryCounts = True"
| "is_summary_query TotalActive = True"
| "is_summary_query (TodayCount d) = True"
| "is_summary_query s = False"

section \<open>Example inputs\<close>

definition ex_article :: article where
  "ex_article =
     \<lparr>title = ''Rice prices rise'', content = ''Prices rose.'', image_url = None,
      source = ''Krishi Daily'', publish_date = Some 1710460800000000,
      url = ''https://krishidaily.com/rice''\<rparr>"

definition ex_article2 :: article where
  "ex_article2 =
     ex_article\<lparr>title := ''Rice prices fall'',
                image_url := Some ''https://krishidaily.com/rice.png''\<rparr>"

definition ex_conn :: conn where
  "ex_conn =
     \<lparr>news = [], journal = [], db_now = 1710500000000000, raises = (\<lambda>s. None),
      committed = []\<rparr>"

definition ex_old_row :: news_row where
  "ex_old_row =
     new_row ''id-8''
       (ex_article\<lparr>url := ''https://krishidaily.com/old'',
                   publish_date := Some (1710500000000000 - timedelta_days 8)\<rparr>)
       ''market_prices'' 1710000000000000"

definition ex_recent_row :: news_row where
  "ex_recent_row =
     new_row ''id-6''
       (ex_article\<lparr>url := ''https://krishidaily.com/recent'',
                   publish_date := Some (1710500000000000 - timedelta_days 6)\<rparr>)
       ''market_prices'' 1710000000000000"

definition ex_inactive_today :: news_row where
  "ex_inactive_today =
     (new_row ''id-0''
        (ex_article\<lparr>url := ''https://krishidaily.com/today'',
                    publish_date := Some 1710490000000000\<rparr>)
        ''market_prices'' 1710000000000000)\<lparr>is_active := False\<rparr>"

definition ex_container :: node where
  "ex_container =
     Tag ''article'' [(''class'', ''news-item'')]
       [Tag ''h1'' [] [Text '' Rice prices rise ''],
        Tag ''h2'' [] [Text ''Markets''],
        Tag ''a'' [(''href'', ''/rice'')] [Text ''Read more''],
        Tag ''p'' [] [Text ''Prices rose.''],
        Tag ''time'' [] [Text ''Published 2024-03-15'']]"

definition ex_container_h2 :: node where
  "ex_container_h2 =
     Tag ''article'' []
       [Tag ''div'' [] [Tag ''h2'' [] [Text ''Markets'']],
        Tag ''a'' [(''href'', ''/markets'')] [Text ''Read more'']]"

definition ex_page :: node where
  "ex_page = Tag ''[document]'' [] [Tag ''html'' [] [Tag ''body'' [] [ex_container]]]"

text \<open>
  A world in which only Krishi Daily answers, with \<^term>\<open>ex_page\<close>; the stand-ins for the
  libraries agree with them on the strings of that page.
\<close>

definition ex_world :: world where
  "ex_world =
     \<lparr>fetch = (\<lambda>u. if u = ''https://krishidaily.com'' then Inr ex_page else Inl ''timed out''),
      urljoin = (\<lambda>base ref. Inr (base @ ref)),
      date_parse = (\<lambda>s. if s = ''2024-03-15'' then Some 1710460800000000 else None),
      scrape_now = 1710500000000000,
      setup_database = None,
      loaded_classifier = None,
      connect = Inr ex_conn,
      uuid4 = (\<lambda>k. ''id-1''),
      deactivate_now = 1710500000000000,
      summary_now = 1710500000000000,
      py_int = (\<lambda>s. if s = ''5'' then Inr 5 else Inl ''invalid literal for int() with base 10''),
      isoformat = (\<lambda>t. ''2024-03-15T00:00:00'')\<rparr>"

text \<open>The same world on a connection that drops while the article is looked up.\<close>

definition ex_dropping_conn :: conn where
  "ex_dropping_conn =
     ex_conn\<lparr>raises :=
       (\<lambda>s. if s = SelectId ''https://krishidaily.com/rice''
             then Some ''server closed the connection unexpectedly'' else None)\<rparr>"

definition ex_failing_world :: world where
  "ex_failing_world = ex_world\<lparr>connect := Inr ex_dropping_conn\<rparr>"

text \<open>A world in which no site answers, on a table that holds an old active row.\<close>

definition ex_silent_world :: world where
  "ex_silent_world =
     ex_world\<lparr>fetch := (\<lambda>u. Inl ''timed out''),
              connect := Inr (ex_conn\<lparr>news := [ex_old_row], committed := [ex_old_row]\<rparr>)\<rparr>"

text \<open>The example world on a table that holds an old and a recent active row.\<close>

definition ex_stale_world :: world where
  "ex_stale_world =
     ex_world\<lparr>connect :=
       Inr (ex_conn\<lparr>news := [ex_old_row, ex_recent_row],
                    committed := [ex_old_row, ex_recent_row]\<rparr>)\<rparr>"

text \<open>The same world on a connection whose commit fails.\<close>

definition ex_commit_failure_world :: world where
  "ex_commit_failure_world =
     ex_world\<lparr>connect :=
       Inr (ex_conn\<lparr>news := [ex_old_row, ex_recent_row],
                    committed := [ex_old_row, ex_recent_row],
                    raises := (\<lambda>s. if s = Commit then Some ''connection already closed''
                                    else None)\<rparr>)\<rparr>"

text \<open>Worlds in which the database cannot be reached.\<close>

definition ex_setup_failure_world :: world where
  "ex_setup_failure_world =
     ex_world\<lparr>setup_database := Some ''could not connect to server: Connection refused''\<rparr>"

definition ex_unreachable_world :: world where
  "ex_unreachable_world =
     ex_world\<lparr>connect := Inl ''FATAL: password authentication failed for user postgres''\<rparr>"

section \<open>Upsert by canonical URL\<close>

lemma filter_update_news_other:
  "filter (\<lambda>r. url r \<noteq> url a) (update_news tbl a cat t) = filter (\<lambda>r. url r \<noteq> url a) tbl"
  by (induction tbl) (auto simp: update_news_def)

lemma map_url_update_news: "map url (update_news tbl a cat t) = map url tbl"
  by (induction tbl) (auto simp: update_news_def)

lemma length_filter_url_update_news:
  "length (filter (\<lambda>r. url r = u) (update_news tbl a cat t)) = length (filter (\<lambda>r. url r = u) tbl)"
  by (induction tbl) (auto simp: update_news_def)

lemma update_news_fields:
  "r \<in> set (update_news tbl a cat t) \<Longrightarrow> url r = url a \<Longrightarrow>
     title r = title a \<and> content r = content a \<and> image_url r = image_url a \<and>
     source r = source a \<and> publish_date r = publish_date a \<and> category r = cat \<and> is_active r"
  by (induction tbl) (auto simp: update_news_def split: if_splits)

lemma distinct_length_filter_url:
  "distinct (map url tbl) \<Longrightarrow> u \<in> set (map url tbl) \<Longrightarrow> length (filter (\<lambda>r. url r = u) tbl) = 1"
  by (induction tbl) (auto simp: filter_empty_conv image_iff)

lemma image_url_update_news: "url ` set (update_news tbl a cat t) = url ` set tbl"
  using map_url_update_news [of tbl a cat t] by (metis set_map)

lemma fetchone_select_id_None:
  "fetchone (select_id tbl u) = None \<longleftrightarrow> u \<notin> url ` set tbl"
  by (induction tbl) (auto simp: fetchone_def select_id_def split: list.splits)

lemma upsert_article_present:
  assumes "raises c (SelectId (url a)) = None" "raises c (UpdateNews (url a)) = None"
    and "url a \<in> url ` set (news c)"
  shows "upsert_article c a cat i =
     (c\<lparr>journal := journal c @ [SelectId (url a), UpdateNews (url a)],
        news := update_news (news c) a cat (db_now c)\<rparr>, False)"
proof -
  obtain e where "fetchone (select_id (news c) (url a)) = Some e"
    using assms(3) fetchone_select_id_None [of "news c" "url a"] by auto
  then show ?thesis
    using assms(1,2) by (simp add: upsert_article_def cursor_execute_def)
qed

lemma upsert_article_absent:
  assumes "raises c (SelectId (url a)) = None" "raises c (InsertNews (url a)) = None"
    and "url a \<notin> url ` set (news c)"
  shows "upsert_article c a cat i =
     (c\<lparr>journal := journal c @ [SelectId (url a), InsertNews (url a)],
        news := news c @ [new_row i a cat (db_now c)]\<rparr>, True)"
proof -
  have "fetchone (select_id (news c) (url a)) = None"
    using assms(3) fetchone_select_id_None [of "news c" "url a"] by auto
  then show ?thesis
    using assms by (simp add: upsert_article_def cursor_execute_def insert_news_def)
qed


text \<open>
  C1. Upsert is idempotent on the canonical URL. On a table whose URLs are unique (the
  \<^verbatim>\<open>UNIQUE\<close> constraint) and a connection that executes the three statements of an
  upsert for this URL, a call of \<^verbatim>\<open>upsert_article\<close> followed by a second call for a
  candidate with the same URL leaves exactly one row with that URL; the second call returns
  \<^verbatim>\<open>False\<close> (not new); the row carries the title, content, image, source, publish date and
  category of the second call and is active; the URLs stay unique and the rows of other
  URLs are untouched.
\<close>

theorem upsert_article_idempotent:
  assumes inv: "distinct (map url (news c))"
    and ok: "raises c (SelectId (url a1)) = None" "raises c (UpdateNews (url a1)) = None"
            "raises c (InsertNews (url a1)) = None"
    and same: "url a2 = url a1"
    and first: "upsert_article c a1 cat1 id1 = (c1, new1)"
    and second: "upsert_article c1 a2 cat2 id2 = (c2, new2)"
  shows "\<not> new2 \<and>
         length (filter (\<lambda>r. url r = url a1) (news c2)) = 1 \<and>
         (\<forall>r \<in> set (news c2). url r = url a1 \<longrightarrow>
            title r = title a2 \<and> content r = content a2 \<and> image_url r = image_url a2 \<and>
            source r = source a2 \<and> publish_date r = publish_date a2 \<and>
            category r = cat2 \<and> is_active r) \<and>
         distinct (map url (news c2)) \<and>
         filter (\<lambda>r. url r \<noteq> url a1) (news c2) = filter (\<lambda>r. url r \<noteq> url a1) (news c)"
proof -
  have c1: "url a1 \<in> url ` set (news c1) \<and> distinct (map url (news c1)) \<and> raises c1 = raises c
      \<and> filter (\<lambda>r. url r \<noteq> url a1) (news c1) = filter (\<lambda>r. url r \<noteq> url a1) (news c)"
  proof (cases "url a1 \<in> url ` set (news c)")
    case True
    from upsert_article_present [OF ok(1,2) True, of cat1 id1] first
    have "c1 = c\<lparr>journal := journal c @ [SelectId (url a1), UpdateNews (url a1)],
        news := update_news (news c) a1 cat1 (db_now c)\<rparr>" by simp
    then show ?thesis using True inv
      by (simp add: image_url_update_news map_url_update_news filter_update_news_other)
  next
    case False
    from upsert_article_absent [OF ok(1,3) False, of cat1 id1] first
    have "c1 = c\<lparr>journal := journal c @ [SelectId (url a1), InsertNews (url a1)],
        news := news c @ [new_row id1 a1 cat1 (db_now c)]\<rparr>" by simp
    then show ?thesis using False inv
      by (simp add: new_row_def)
  qed
  have ok2: "raises c1 (SelectId (url a2)) = None" "raises c1 (UpdateNews (url a2)) = None"
    using c1 ok same by simp_all
  have pres: "url a2 \<in> url ` set (news c1)" using c1 same by simp
  from upsert_article_present [OF ok2 pres, of cat2 id2] second
  have c2: "news c2 = update_news (news c1) a2 cat2 (db_now c1)" and n2: "\<not> new2"
    by auto
  have one: "length (filter (\<lambda>r. url r = url a1) (news c2)) = 1"
    using c1 by (simp add: c2 length_filter_url_update_news distinct_length_filter_url)
  have fields: "\<forall>r \<in> set (news c2). url r = url a1 \<longrightarrow>
            title r = title a2 \<and> content r = content a2 \<and> image_url r = image_url a2 \<and>
            source r = source a2 \<and> publish_date r = publish_date a2 \<and>
            category r = cat2 \<and> is_active r"
    using update_news_fields [of _ "news c1" a2 cat2 "db_now c1"] same by (simp add: c2)
  have dist: "distinct (map url (news c2))"
    using c1 by (simp add: c2 map_url_update_news)
  have rest: "filter (\<lambda>r. url r \<noteq> url a1) (news c2) = filter (\<lambda>r. url r \<noteq> url a1) (news c)"
    using c1 filter_update_news_other [of a2 "news c1" cat2 "db_now c1"] same by (simp add: c2)
  from n2 one fields dist rest show ?thesis by blast
qed

theorem upsert_article_idempotent_witness:
  "\<not> snd (upsert_article (fst (upsert_article ex_conn ex_article ''market_prices'' ''id-1''))
             ex_article2 ''policy_update'' ''id-2'') \<and>
   length (filter (\<lambda>r. url r = ''https://krishidaily.com/rice'')
     (news (fst (upsert_article (fst (upsert_article ex_conn ex_article ''market_prices'' ''id-1''))
             ex_article2 ''policy_update'' ''id-2'')))) = 1 \<and>
   map (\<lambda>r. (url r, title r, category r, is_active r))
     (news (fst (upsert_article (fst (upsert_article ex_conn ex_article ''market_prices'' ''id-1''))
             ex_article2 ''policy_update'' ''id-2'')))
     = [(''https://krishidaily.com/rice'', ''Rice prices fall'', ''policy_update'', True)]"
proof -
  let ?c1 = "fst (upsert_article ex_conn ex_article ''market_prices'' ''id-1'')"
  let ?n1 = "snd (upsert_article ex_conn ex_article ''market_prices'' ''id-1'')"
  let ?c2 = "fst (upsert_article ?c1 ex_article2 ''policy_update'' ''id-2'')"
  let ?n2 = "snd (upsert_article ?c1 ex_article2 ''policy_update'' ''id-2'')"
  have h: "distinct (map url (news ex_conn))"
    "raises ex_conn (SelectId (url ex_article)) = None"
    "raises ex_conn (UpdateNews (url ex_article)) = None"
    "raises ex_conn (InsertNews (url ex_article)) = None"
    "url ex_article2 = url ex_article"
    by (simp_all add: ex_conn_def ex_article2_def)
  have u: "url ex_article = ''https://krishidaily.com/rice''"
    by (simp add: ex_article_def)
  have c1: "?c1 = ex_conn\<lparr>journal := [SelectId (url ex_article), InsertNews (url ex_article)],
       news := [new_row ''id-1'' ex_article ''market_prices'' 1710500000000000]\<rparr>"
    by (simp add: upsert_article_def cursor_execute_def fetchone_def select_id_def
        insert_news_def ex_conn_def)
  have c2: "map (\<lambda>r. (url r, title r, category r, is_active r)) (news ?c2)
     = [(''https://krishidaily.com/rice'', ''Rice prices fall'', ''policy_update'', True)]"
    unfolding c1
    by (simp add: upsert_article_def cursor_execute_def fetchone_def select_id_def
        update_news_def new_row_def ex_conn_def ex_article_def ex_article2_def)
  from upsert_article_idempotent [OF h, where ?cat1.0 = "''market_prices''" and ?id1.0 = "''id-1''"
      and ?c1.0 = ?c1 and ?new1.0 = ?n1 and ?cat2.0 = "''policy_update''" and ?id2.0 = "''id-2''"
      and ?c2.0 = ?c2 and ?new2.0 = ?n2]
  have "\<not> ?n2 \<and> length (filter (\<lambda>r. url r = url ex_article) (news ?c2)) = 1"
    by simp
  with c2 u show ?thesis by simp
qed


section \<open>Stale deactivation\<close>

lemma deactivate_old_articles_ok:
  assumes "raises c (DeactivateOld (now - timedelta_days 7)) = None"
  shows "news (deactivate_old_articles c now) = deactivate_old (news c) (now - timedelta_days 7) (db_now c)"
    and "raises (deactivate_old_articles c now) = raises c"
    and "db_now (deactivate_old_articles c now) = db_now c"
    and "journal (deactivate_old_articles c now) = journal c @ [DeactivateOld (now - timedelta_days 7)]"
  using assms by (simp_all add: deactivate_old_articles_def cursor_execute_def Let_def)

lemma deactivate_old_none_stale: "\<forall>r \<in> set (deactivate_old tbl cutoff t). \<not> stale cutoff r"
  by (auto simp: deactivate_old_def stale_def)

lemma deactivate_old_id: "\<forall>r \<in> set tbl. \<not> stale cutoff r \<Longrightarrow> deactivate_old tbl cutoff t = tbl"
  by (induction tbl) (auto simp: deactivate_old_def)


text \<open>
  C4. \<^verbatim>\<open>deactivate_old_articles\<close> (retention window of 7 days), when its statement
  executes: the table keeps its length; a row that is active and whose publish date is
  before \<^verbatim>\<open>now\<close> minus 7 days becomes inactive (with \<^verbatim>\<open>updated_at\<close> refreshed), every
  other row is left exactly as it was. In particular an active row published 8 days before
  \<^verbatim>\<open>now\<close> becomes inactive and a row published 6 days before \<^verbatim>\<open>now\<close> is untouched.
  Running it a second time changes nothing, and neither does a run on a table without an
  active row older than 7 days.
\<close>

theorem deactivate_old_articles_spec:
  assumes ok: "raises c (DeactivateOld (now - timedelta_days 7)) = None"
  shows "length (news (deactivate_old_articles c now)) = length (news c) \<and>
         (\<forall>i < length (news c).
            (is_active (news c ! i) \<and> (\<exists>d. publish_date (news c ! i) = Some d \<and> d < now - timedelta_days 7)
               \<longrightarrow> news (deactivate_old_articles c now) ! i
                     = (news c ! i)\<lparr>is_active := False, updated_at := db_now c\<rparr>) \<and>
            (\<not> (is_active (news c ! i) \<and> (\<exists>d. publish_date (news c ! i) = Some d \<and> d < now - timedelta_days 7))
               \<longrightarrow> news (deactivate_old_articles c now) ! i = news c ! i)) \<and>
         (\<forall>r \<in> set (news c).
            publish_date r = Some (now - timedelta_days 8) \<and> is_active r \<longrightarrow>
              r\<lparr>is_active := False, updated_at := db_now c\<rparr> \<in> set (news (deactivate_old_articles c now))) \<and>
         (\<forall>r \<in> set (news c).
            publish_date r = Some (now - timedelta_days 6) \<longrightarrow> r \<in> set (news (deactivate_old_articles c now))) \<and>
         news (deactivate_old_articles (deactivate_old_articles c now) now) = news (deactivate_old_articles c now) \<and>
         ((\<forall>r \<in> set (news c). \<not> (is_active r \<and> (\<exists>d. publish_date r = Some d \<and> d < now - timedelta_days 7)))
            \<longrightarrow> news (deactivate_old_articles c now) = news c)"
proof -
  let ?cut = "now - timedelta_days 7"
  have st: "stale ?cut r \<longleftrightarrow> is_active r \<and> (\<exists>d. publish_date r = Some d \<and> d < ?cut)" for r
    by (auto simp: stale_def split: option.splits)
  note n = deactivate_old_articles_ok [OF ok]
  have ok2: "raises (deactivate_old_articles c now) (DeactivateOld ?cut) = None"
    using ok n(2) by simp
  have 1: "length (news (deactivate_old_articles c now)) = length (news c)"
    by (simp add: n(1) deactivate_old_def)
  have 2: "\<forall>i < length (news c).
            (is_active (news c ! i) \<and> (\<exists>d. publish_date (news c ! i) = Some d \<and> d < ?cut)
               \<longrightarrow> news (deactivate_old_articles c now) ! i
                     = (news c ! i)\<lparr>is_active := False, updated_at := db_now c\<rparr>) \<and>
            (\<not> (is_active (news c ! i) \<and> (\<exists>d. publish_date (news c ! i) = Some d \<and> d < ?cut))
               \<longrightarrow> news (deactivate_old_articles c now) ! i = news c ! i)"
    by (auto simp add: n(1) deactivate_old_def st)
  have 3: "\<forall>r \<in> set (news c).
            publish_date r = Some (now - timedelta_days 8) \<and> is_active r \<longrightarrow>
              r\<lparr>is_active := False, updated_at := db_now c\<rparr> \<in> set (news (deactivate_old_articles c now))"
    by (force simp: n(1) deactivate_old_def stale_def timedelta_days_def image_iff)
  have 4: "\<forall>r \<in> set (news c).
            publish_date r = Some (now - timedelta_days 6) \<longrightarrow> r \<in> set (news (deactivate_old_articles c now))"
    by (force simp: n(1) deactivate_old_def stale_def timedelta_days_def image_iff)
  have 5: "news (deactivate_old_articles (deactivate_old_articles c now) now) = news (deactivate_old_articles c now)"
    using deactivate_old_articles_ok(1) [OF ok2] deactivate_old_none_stale [of "news c" ?cut "db_now c"]
    by (simp add: n(1) deactivate_old_id)
  have 6: "(\<forall>r \<in> set (news c). \<not> (is_active r \<and> (\<exists>d. publish_date r = Some d \<and> d < ?cut)))
            \<longrightarrow> news (deactivate_old_articles c now) = news c"
    using deactivate_old_id [of "news c" ?cut "db_now c"] by (simp add: n(1) st)
  from 1 2 3 4 5 6 show ?thesis by blast
qed

theorem deactivate_old_articles_spec_witness:
  "length (news (deactivate_old_articles
       (ex_conn\<lparr>news := [ex_old_row, ex_recent_row]\<rparr>) 1710500000000000)) = 2 \<and>
   \<not> is_active (news (deactivate_old_articles
       (ex_conn\<lparr>news := [ex_old_row, ex_recent_row]\<rparr>) 1710500000000000) ! 0) \<and>
   news (deactivate_old_articles
       (ex_conn\<lparr>news := [ex_old_row, ex_recent_row]\<rparr>) 1710500000000000) ! 1 = ex_recent_row \<and>
   is_active ex_old_row \<and> is_active ex_recent_row"
proof -
  let ?c = "ex_conn\<lparr>news := [ex_old_row, ex_recent_row]\<rparr>"
  have h: "raises ?c (DeactivateOld (1710500000000000 - timedelta_days 7)) = None"
    by (simp add: ex_conn_def)
  have rows: "is_active ex_old_row" "is_active ex_recent_row"
    "publish_date ex_old_row = Some (1710500000000000 - timedelta_days 8)"
    "publish_date ex_recent_row = Some (1710500000000000 - timedelta_days 6)"
    by (simp_all add: ex_old_row_def ex_recent_row_def new_row_def)
  from deactivate_old_articles_spec [OF h]
  show ?thesis
    by (simp add: rows timedelta_days_def less_Suc_eq all_conj_distrib)
qed
section \<open>Categorizer threshold\<close>

lemma map_back_known:
  "(k, l) \<in> set category_descriptions \<Longrightarrow>
     map_back category_descriptions l s = (if s > 0.3 then k else ''uncategorized'')"
  apply (simp only: category_descriptions_def list.set insert_iff empty_iff prod.inject)
  apply (elim disjE conjE FalseE; hypsubst; simp)
  done

lemma known_not_uncategorized:
  "(k, l) \<in> set category_descriptions \<Longrightarrow> k \<noteq> ''uncategorized''"
  unfolding category_descriptions_def by auto

text \<open>
  C3, as stated, fails at the threshold itself: the classifier's top label is the
  description of \<^verbatim>\<open>livestock_dairy\<close> and its score is exactly 0.3, and
  \<^verbatim>\<open>categorize_article\<close> returns \<^verbatim>\<open>"uncategorized"\<close>, not the category.
\<close>

theorem categorize_article_threshold_counterexample:
  "categorize_article
     (Some (\<lambda>txt candidate_labels.
        Inr \<lparr>labels = [''Livestock farming, dairy production, and animal husbandry''],
             scores = [0.3]\<rparr>))
     ''Goat prices'' ''Dairy'' = ''uncategorized'' \<and>
   (''livestock_dairy'', ''Livestock farming, dairy production, and animal husbandry'')
     \<in> set category_descriptions"
  by (simp add: categorize_article_def category_descriptions_def)

text \<open>
  C3, amended. For every classification result whose top-ranked label is the description of
  a known category, \<^verbatim>\<open>categorize_article\<close> returns that category exactly when the top
  score is greater than 0.3, and \<^verbatim>\<open>"uncategorized"\<close> (which is none of the known
  categories) when the score is 0.3 or less. The text handed to the classifier is the first
  1000 characters of title, space, content.
\<close>

theorem categorize_article_threshold:
  assumes "classify (take 1000 (ttl @ '' '' @ body)) (map snd category_descriptions) = Inr result"
    and "labels result = best_label # other_labels"
    and "scores result = best_score # other_scores"
    and "(k, best_label) \<in> set category_descriptions"
  shows "categorize_article (Some classify) ttl body
           = (if best_score > 0.3 then k else ''uncategorized'') \<and>
         k \<noteq> ''uncategorized'' \<and>
         (categorize_article (Some classify) ttl body = k \<longleftrightarrow> best_score > 0.3) \<and>
         (categorize_article (Some classify) ttl body = ''uncategorized'' \<longleftrightarrow> best_score \<le> 0.3)"
proof -
  have eq: "categorize_article (Some classify) ttl body
           = (if best_score > 0.3 then k else ''uncategorized'')"
    using assms(1,2,3) map_back_known [OF assms(4), of best_score]
    by (simp add: categorize_article_def)
  have ne: "k \<noteq> ''uncategorized''"
    by (rule known_not_uncategorized [OF assms(4)])
  from eq ne show ?thesis by auto
qed

theorem categorize_article_threshold_witness:
  "categorize_article
     (Some (\<lambda>txt candidate_labels.
        Inr \<lparr>labels = [''Livestock farming, dairy production, and animal husbandry''],
             scores = [0.9]\<rparr>))
     ''Goat prices'' ''Dairy'' = ''livestock_dairy'' \<and>
   categorize_article
     (Some (\<lambda>txt candidate_labels.
        Inr \<lparr>labels = [''Livestock farming, dairy production, and animal husbandry''],
             scores = [0.25]\<rparr>))
     ''Goat prices'' ''Dairy'' = ''uncategorized''"
proof -
  have k: "(''livestock_dairy'', ''Livestock farming, dairy production, and animal husbandry'')
     \<in> set category_descriptions"
    by (simp add: category_descriptions_def)
  have a: "categorize_article
     (Some (\<lambda>txt candidate_labels.
        Inr \<lparr>labels = [''Livestock farming, dairy production, and animal husbandry''],
             scores = [0.9]\<rparr>))
     ''Goat prices'' ''Dairy'' = ''livestock_dairy''"
    using categorize_article_threshold [OF _ _ _ k, where best_score = "0.9"
        and classify = "\<lambda>txt candidate_labels.
          Inr \<lparr>labels = [''Livestock farming, dairy production, and animal husbandry''],
               scores = [0.9]\<rparr>"]
    by simp
  have b: "categorize_article
     (Some (\<lambda>txt candidate_labels.
        Inr \<lparr>labels = [''Livestock farming, dairy production, and animal husbandry''],
             scores = [0.25]\<rparr>))
     ''Goat prices'' ''Dairy'' = ''uncategorized''"
    using categorize_article_threshold [OF _ _ _ k, where best_score = "0.25"
        and classify = "\<lambda>txt candidate_labels.
          Inr \<lparr>labels = [''Livestock farming, dairy production, and animal husbandry''],
               scores = [0.25]\<rparr>"]
    by simp
  from a b show ?thesis by simp
qed

section \<open>Summary statistics\<close>

lemma get_summary_stats_ok:
  assumes "raises c CategoryCounts = None" "raises c TotalActive = None"
    and "raises c (TodayCount (date_of now)) = None"
  shows "get_summary_stats c now =
     (c\<lparr>journal := journal c @ [CategoryCounts, TotalActive, TodayCount (date_of now)]\<rparr>,
      Some \<lparr>total_active = length (filter is_active (news c)),
            today_count = length (filter (published_on (date_of now)) (news c)),
            category_stats = category_counts (news c)\<rparr>)"
  using assms by (simp add: get_summary_stats_def cursor_execute_def Let_def)

text \<open>
  C9, as stated, fails: on a table whose only row was published today and is inactive,
  \<^verbatim>\<open>today_count\<close> is 1, while no row is both active and published today.
\<close>

theorem today_count_counterexample:
  "map_option today_count
     (snd (get_summary_stats (ex_conn\<lparr>news := [ex_inactive_today]\<rparr>) 1710500000000000)) = Some 1 \<and>
   length (filter (\<lambda>r. is_active r \<and> published_on (date_of 1710500000000000) r)
             (news (ex_conn\<lparr>news := [ex_inactive_today]\<rparr>))) = 0"
  by (simp add: get_summary_stats_def cursor_execute_def Let_def ex_conn_def
      ex_inactive_today_def new_row_def published_on_def date_of_def ex_article_def)

text \<open>
  C9, amended. When its three queries execute, \<^verbatim>\<open>get_summary_stats\<close> reports as
  \<^verbatim>\<open>today_count\<close> the number of rows whose publish date falls on the current day, whatever
  their active flag; \<^verbatim>\<open>total_active\<close> is the number of active rows.
\<close>

theorem today_count_all_rows:
  assumes "raises c CategoryCounts = None" "raises c TotalActive = None"
    and "raises c (TodayCount (date_of now)) = None"
  shows "\<exists>s. snd (get_summary_stats c now) = Some s \<and>
           today_count s =
             length (filter (\<lambda>r. \<exists>d. publish_date r = Some d \<and> date_of d = date_of now) (news c)) \<and>
           total_active s = length (filter is_active (news c))"
proof -
  have "published_on (date_of now) = (\<lambda>r. \<exists>d. publish_date r = Some d \<and> date_of d = date_of now)"
    by (auto simp: published_on_def fun_eq_iff split: option.splits)
  then show ?thesis
    using get_summary_stats_ok [OF assms] by simp
qed

theorem today_count_all_rows_witness:
  "map_option today_count
     (snd (get_summary_stats (ex_conn\<lparr>news := [ex_inactive_today, ex_recent_row]\<rparr>)
        1710500000000000)) = Some 1 \<and>
   map_option total_active
     (snd (get_summary_stats (ex_conn\<lparr>news := [ex_inactive_today, ex_recent_row]\<rparr>)
        1710500000000000)) = Some 1"
proof -
  let ?c = "ex_conn\<lparr>news := [ex_inactive_today, ex_recent_row]\<rparr>"
  have h: "raises ?c CategoryCounts = None" "raises ?c TotalActive = None"
    "raises ?c (TodayCount (date_of 1710500000000000)) = None"
    by (simp_all add: ex_conn_def)
  have rows: "publish_date ex_inactive_today = Some 1710490000000000"
    "publish_date ex_recent_row = Some (1710500000000000 - timedelta_days 6)"
    "\<not> is_active ex_inactive_today" "is_active ex_recent_row"
    by (simp_all add: ex_inactive_today_def ex_recent_row_def new_row_def)
  from today_count_all_rows [OF h]
  show ?thesis
    by (auto simp: rows date_of_def timedelta_days_def)
qed

section \<open>Date extraction: pattern order and fallback\<close>

lemma try_patterns_None:
  "try_patterns parse ps txt = None \<longleftrightarrow>
     (\<forall>p \<in> set ps. \<forall>m. re_search p txt = Some m \<longrightarrow> parse m = None)"
  by (induction ps) (auto split: option.splits)

lemma try_patterns_Some:
  "try_patterns parse ps txt = Some d \<longleftrightarrow>
     (\<exists>i < length ps.
        (\<exists>m. re_search (ps ! i) txt = Some m \<and> parse m = Some d) \<and>
        (\<forall>j < i. \<forall>m. re_search (ps ! j) txt = Some m \<longrightarrow> parse m = None))"
proof (induction ps)
  case Nil
  show ?case by simp
next
  case (Cons p ps)
  show ?case
  proof (cases "\<exists>m. re_search p txt = Some m \<and> parse m \<noteq> None")
    case True
    then obtain m e where m: "re_search p txt = Some m" "parse m = Some e" by auto
    have "(\<exists>i < length (p # ps).
        (\<exists>m. re_search ((p # ps) ! i) txt = Some m \<and> parse m = Some d) \<and>
        (\<forall>j < i. \<forall>m. re_search ((p # ps) ! j) txt = Some m \<longrightarrow> parse m = None)) \<longleftrightarrow> e = d"
    proof
      assume "\<exists>i < length (p # ps).
        (\<exists>m. re_search ((p # ps) ! i) txt = Some m \<and> parse m = Some d) \<and>
        (\<forall>j < i. \<forall>m. re_search ((p # ps) ! j) txt = Some m \<longrightarrow> parse m = None)"
      then obtain i where i: "i < length (p # ps)"
        "\<exists>m. re_search ((p # ps) ! i) txt = Some m \<and> parse m = Some d"
        "\<forall>j < i. \<forall>m. re_search ((p # ps) ! j) txt = Some m \<longrightarrow> parse m = None"
        by blast
      have "i = 0"
      proof (rule ccontr)
        assume "i \<noteq> 0"
        then have "0 < i" by simp
        with i(3) [rule_format, of 0 m] m show False by simp
      qed
      with i(2) m show "e = d" by simp
    next
      assume "e = d"
      with m show "\<exists>i < length (p # ps).
        (\<exists>m. re_search ((p # ps) ! i) txt = Some m \<and> parse m = Some d) \<and>
        (\<forall>j < i. \<forall>m. re_search ((p # ps) ! j) txt = Some m \<longrightarrow> parse m = None)"
        by (intro exI [of _ 0]) simp
    qed
    with m show ?thesis by simp
  next
    case False
    then have skip: "try_patterns parse (p # ps) txt = try_patterns parse ps txt"
      by (auto split: option.splits)
    have "(\<exists>i < length (p # ps).
        (\<exists>m. re_search ((p # ps) ! i) txt = Some m \<and> parse m = Some d) \<and>
        (\<forall>j < i. \<forall>m. re_search ((p # ps) ! j) txt = Some m \<longrightarrow> parse m = None)) \<longleftrightarrow>
      (\<exists>i < length ps.
        (\<exists>m. re_search (ps ! i) txt = Some m \<and> parse m = Some d) \<and>
        (\<forall>j < i. \<forall>m. re_search (ps ! j) txt = Some m \<longrightarrow> parse m = None))"
      (is "?L \<longleftrightarrow> ?R")
    proof
      assume ?L
      then obtain i where i: "i < length (p # ps)"
        "\<exists>m. re_search ((p # ps) ! i) txt = Some m \<and> parse m = Some d"
        "\<forall>j < i. \<forall>m. re_search ((p # ps) ! j) txt = Some m \<longrightarrow> parse m = None"
        by blast
      from i(2) False have "i \<noteq> 0" by (cases i) auto
      then obtain i' where i': "i = Suc i'" by (cases i) auto
      have "\<forall>j < i'. \<forall>m. re_search (ps ! j) txt = Some m \<longrightarrow> parse m = None"
      proof (intro allI impI)
        fix j m assume "j < i'" "re_search (ps ! j) txt = Some m"
        then show "parse m = None" using i(3) [rule_format, of "Suc j" m] i' by simp
      qed
      with i(1,2) i' show ?R by (intro exI [of _ i']) simp
    next
      assume ?R
      then obtain i where i: "i < length ps"
        "\<exists>m. re_search (ps ! i) txt = Some m \<and> parse m = Some d"
        "\<forall>j < i. \<forall>m. re_search (ps ! j) txt = Some m \<longrightarrow> parse m = None"
        by blast
      have "\<forall>j < Suc i. \<forall>m. re_search ((p # ps) ! j) txt = Some m \<longrightarrow> parse m = None"
      proof (intro allI impI)
        fix j m assume j: "j < Suc i" "re_search ((p # ps) ! j) txt = Some m"
        show "parse m = None"
        proof (cases j)
          case 0
          with j(2) False show ?thesis by auto
        next
          case (Suc j')
          with j i(3) show ?thesis by simp
        qed
      qed
      with i(1,2) show ?L by (intro exI [of _ "Suc i"]) simp
    qed
    with skip Cons.IH show ?thesis by simp
  qed
qed

lemma re_search_iso_example:
  "map (\<lambda>p. re_search p ''2024-03-15'') date_patterns = [Some ''2024-03-15'', None, None, None]"
  by (simp add: date_patterns_def seq_def digits_def alternatives_def nepali_months_def
      is_digit_def is_space_def eval_nat_numeral re_search.simps)

lemma re_search_no_date_example:
  "map (\<lambda>p. re_search p ''no date here'') date_patterns = [None, None, None, None]"
  by (simp add: date_patterns_def seq_def digits_def alternatives_def nepali_months_def
      is_digit_def is_space_def eval_nat_numeral re_search.simps)

lemma re_search_each_pattern:
  "map (\<lambda>p. re_search p ''15-03-2024, 03/15/2024, 2024-03-15, 12 Magh 2080'') date_patterns
     = [Some ''2024-03-15'', Some ''03/15/2024'', Some ''15-03-2024'', Some ''12 Magh 2080'']"
  by (simp add: date_patterns_def seq_def digits_def alternatives_def nepali_months_def
      is_digit_def is_space_def eval_nat_numeral re_search.simps)

lemma date_patterns_unfold:
  "date_patterns = [date_patterns ! 0, date_patterns ! Suc 0, date_patterns ! 2, date_patterns ! 3]"
  by (simp add: date_patterns_def)

text \<open>
  C8. \<^verbatim>\<open>extract_date_from_text\<close> goes through its four patterns in order (ISO
  \<^verbatim>\<open>YYYY-MM-DD\<close>, \<^verbatim>\<open>MM/DD/YYYY\<close>, \<^verbatim>\<open>DD-MM-YYYY\<close>, named month): it returns a date
  exactly when some pattern matches a substring the date parser accepts while, for every
  earlier pattern, either nothing matches or the parser rejects the match (so a rejected
  match passes on to the next pattern); it returns \<^verbatim>\<open>None\<close> exactly when the text is
  empty or, for every pattern, nothing matches or the parser rejects the match. For
  \<^verbatim>\<open>"2024-03-15"\<close> only the ISO pattern matches, the whole text, and the result is what
  the parser makes of it; for \<^verbatim>\<open>"no date here"\<close> the result is \<^verbatim>\<open>None\<close>.
\<close>

theorem extract_date_from_text_spec:
  "(extract_date_from_text parse txt = Some d \<longleftrightarrow>
      txt \<noteq> [] \<and>
      (\<exists>i < length date_patterns.
         (\<exists>m. re_search (date_patterns ! i) txt = Some m \<and> parse m = Some d) \<and>
         (\<forall>j < i. \<forall>m. re_search (date_patterns ! j) txt = Some m \<longrightarrow> parse m = None))) \<and>
   (extract_date_from_text parse txt = None \<longleftrightarrow>
      txt = [] \<or>
      (\<forall>p \<in> set date_patterns. \<forall>m. re_search p txt = Some m \<longrightarrow> parse m = None)) \<and>
   map (\<lambda>p. re_search p ''15-03-2024, 03/15/2024, 2024-03-15, 12 Magh 2080'') date_patterns
     = [Some ''2024-03-15'', Some ''03/15/2024'', Some ''15-03-2024'', Some ''12 Magh 2080''] \<and>
   map (\<lambda>p. re_search p ''2024-03-15'') date_patterns = [Some ''2024-03-15'', None, None, None] \<and>
   extract_date_from_text parse ''2024-03-15'' = parse ''2024-03-15'' \<and>
   extract_date_from_text parse ''no date here'' = None"
proof -
  have four: "try_patterns parse date_patterns t =
      try_patterns parse [date_patterns ! 0, date_patterns ! Suc 0, date_patterns ! 2, date_patterns ! 3] t"
    for t
    by (subst date_patterns_unfold) (rule refl)
  have i0: "re_search (date_patterns ! 0) ''2024-03-15'' = Some ''2024-03-15''"
    and i1: "re_search (date_patterns ! Suc 0) ''2024-03-15'' = None"
    and i2: "re_search (date_patterns ! 2) ''2024-03-15'' = None"
    and i3: "re_search (date_patterns ! 3) ''2024-03-15'' = None"
    using re_search_iso_example by (subst (asm) date_patterns_unfold, simp)+
  have iso: "extract_date_from_text parse ''2024-03-15'' = parse ''2024-03-15''"
    by (simp add: extract_date_from_text_def four i0 i1 i2 i3 split: option.splits)
  have n0: "re_search (date_patterns ! 0) ''no date here'' = None"
    and n1: "re_search (date_patterns ! Suc 0) ''no date here'' = None"
    and n2: "re_search (date_patterns ! 2) ''no date here'' = None"
    and n3: "re_search (date_patterns ! 3) ''no date here'' = None"
    using re_search_no_date_example by (subst (asm) date_patterns_unfold, simp)+
  have none: "extract_date_from_text parse ''no date here'' = None"
    by (simp add: extract_date_from_text_def four n0 n1 n2 n3)
  show ?thesis
    using iso none re_search_each_pattern re_search_iso_example
    by (simp add: extract_date_from_text_def try_patterns_None try_patterns_Some)
qed

theorem extract_date_from_text_spec_witness:
  "extract_date_from_text (\<lambda>s. if s = ''2024-03-15'' then Some 1710460800000000 else None)
     ''2024-03-15'' = Some 1710460800000000 \<and>
   extract_date_from_text (\<lambda>s. if s = ''2024-03-15'' then Some 1710460800000000 else None)
     ''no date here'' = None \<and>
   extract_date_from_text (\<lambda>s. if s = ''24/03/2024'' then Some 1711238400000000 else None)
     ''0000-00-00 or 24/03/2024'' = Some 1711238400000000"
proof -
  let ?p = "\<lambda>s. if s = ''2024-03-15'' then Some (1710460800000000 :: int) else None"
  let ?q = "\<lambda>s. if s = ''24/03/2024'' then Some (1711238400000000 :: int) else None"
  have m: "map (\<lambda>p. re_search p ''0000-00-00 or 24/03/2024'') date_patterns
     = [Some ''0000-00-00'', Some ''24/03/2024'', None, None]"
    by (simp add: date_patterns_def seq_def digits_def alternatives_def nepali_months_def
      is_digit_def is_space_def eval_nat_numeral re_search.simps)
  have m0: "re_search (date_patterns ! 0) ''0000-00-00 or 24/03/2024'' = Some ''0000-00-00''"
    and m1: "re_search (date_patterns ! Suc 0) ''0000-00-00 or 24/03/2024'' = Some ''24/03/2024''"
    using m by (subst (asm) date_patterns_unfold, simp)+
  have len: "Suc 0 < length date_patterns" by (simp add: date_patterns_def)
  from extract_date_from_text_spec [of ?p "''2024-03-15''"]
  have a: "extract_date_from_text ?p ''2024-03-15'' = Some 1710460800000000" by simp
  from extract_date_from_text_spec [of ?p]
  have b: "extract_date_from_text ?p ''no date here'' = None" by simp
  have "\<exists>i < length date_patterns.
         (\<exists>m. re_search (date_patterns ! i) ''0000-00-00 or 24/03/2024'' = Some m
               \<and> ?q m = Some 1711238400000000) \<and>
         (\<forall>j < i. \<forall>m. re_search (date_patterns ! j) ''0000-00-00 or 24/03/2024'' = Some m
               \<longrightarrow> ?q m = None)"
    using len m0 m1 by (intro exI [of _ "Suc 0"]) simp
  with extract_date_from_text_spec [of ?q "''0000-00-00 or 24/03/2024''" 1711238400000000]
  have c: "extract_date_from_text ?q ''0000-00-00 or 24/03/2024'' = Some 1711238400000000"
    by simp
  from a b c show ?thesis by simp
qed

section \<open>Title resolution\<close>

lemma selects_ByName: "selects (ByName n) = is_named n"
proof
  fix e show "selects (ByName n) e = is_named n e" by (cases e) auto
qed

lemma select_one_ByName: "select_one item (ByName n) = find_tag item n"
  by (simp add: select_one_def select_def find_tag_def find_all_def selects_ByName)

text \<open>
  C6, as stated, fails for the specialized profile: \<^verbatim>\<open>scrape_narc_news\<close> resolves the
  title of a container that holds an \<^verbatim>\<open>h1\<close> (``Rice prices rise'') and an \<^verbatim>\<open>h2\<close>
  (``Markets'') to the text of the \<^verbatim>\<open>h2\<close>.
\<close>

theorem narc_title_counterexample:
  "narc_title ex_container = ''Markets'' \<and>
   map_option get_text_strip (find_tag ex_container ''h1'') = Some ''Rice prices rise'' \<and>
   map_option get_text_strip (find_tag ex_container ''h2'') = Some ''Markets''"
  by (simp add: narc_title_def ex_container_def find_tag_def find_all_def fetchone_def
      or_else_def get_text_strip_def strip_def is_space_def)

text \<open>
  C6, amended. The generic profile resolves the title by first match over \<^verbatim>\<open>h1\<close>,
  \<^verbatim>\<open>h2\<close>, \<^verbatim>\<open>h3\<close>, \<^verbatim>\<open>.title\<close>, \<^verbatim>\<open>.headline\<close>: a container with an \<^verbatim>\<open>h1\<close> (with or
  without an \<^verbatim>\<open>h2\<close>) yields the stripped text of its first \<^verbatim>\<open>h1\<close>, and a container with
  an \<^verbatim>\<open>h2\<close> and no \<^verbatim>\<open>h1\<close> yields the text of its first \<^verbatim>\<open>h2\<close>. The specialized profile
  resolves it over \<^verbatim>\<open>h2\<close>, \<^verbatim>\<open>h3\<close>, \<^verbatim>\<open>a\<close>: a container with an \<^verbatim>\<open>h2\<close> yields the text of
  its first \<^verbatim>\<open>h2\<close>, whether or not it holds an \<^verbatim>\<open>h1\<close>. Either profile yields
  \<^verbatim>\<open>"No title"\<close> when nothing in its cascade is present.
\<close>

theorem title_cascade:
  "(find_tag item ''h1'' = Some e \<longrightarrow> generic_title item = get_text_strip e) \<and>
   (find_tag item ''h1'' = None \<and> find_tag item ''h2'' = Some e \<longrightarrow>
      generic_title item = get_text_strip e) \<and>
   (find_tag item ''h2'' = Some e \<longrightarrow> narc_title item = get_text_strip e) \<and>
   (find_tag item ''h2'' = None \<and> find_tag item ''h3'' = Some e \<longrightarrow>
      narc_title item = get_text_strip e) \<and>
   (find_tag item ''h2'' = None \<and> find_tag item ''h3'' = None \<and> find_tag item ''a'' = Some e \<longrightarrow>
      narc_title item = get_text_strip e) \<and>
   (find_tag item ''h2'' = None \<and> find_tag item ''h3'' = None \<and> find_tag item ''a'' = None \<longrightarrow>
      narc_title item = ''No title'') \<and>
   (first_selected item title_selectors = None \<longrightarrow> generic_title item = ''No title'')"
  by (simp add: generic_title_def narc_title_def title_selectors_def select_one_ByName or_else_def)

theorem title_cascade_witness:
  "generic_title ex_container = ''Rice prices rise'' \<and>
   generic_title ex_container_h2 = ''Markets'' \<and>
   narc_title ex_container_h2 = ''Markets''"
proof -
  have a: "find_tag ex_container ''h1'' = Some (Tag ''h1'' [] [Text '' Rice prices rise ''])"
    by (simp add: ex_container_def find_tag_def find_all_def fetchone_def)
  have b: "find_tag ex_container_h2 ''h1'' = None"
    "find_tag ex_container_h2 ''h2'' = Some (Tag ''h2'' [] [Text ''Markets''])"
    by (simp_all add: ex_container_h2_def find_tag_def find_all_def fetchone_def)
  have t: "get_text_strip (Tag ''h1'' [] [Text '' Rice prices rise '']) = ''Rice prices rise''"
    "get_text_strip (Tag ''h2'' [] [Text ''Markets'']) = ''Markets''"
    by (simp_all add: get_text_strip_def strip_def is_space_def)
  from title_cascade [of ex_container "Tag ''h1'' [] [Text '' Rice prices rise '']"]
    title_cascade [of ex_container_h2 "Tag ''h2'' [] [Text ''Markets'']"]
  show ?thesis by (simp add: a b t)
qed

section \<open>The pipeline run\<close>

lemma scrape_ex_container:
  "filter (selects (ByName ''article'')) (descendants ex_page) = [ex_container]"
  by (simp add: ex_page_def ex_container_def)

lemma generic_item_ex:
  "generic_item ex_world ''Krishi Daily'' ''https://krishidaily.com'' ex_container = Some ex_article"
  by (simp add: generic_item_def generic_title_def title_selectors_def content_selectors_def
      date_selectors_def select_one_def select_def fetchone_def joined_def find_tag_def find_all_def
      ex_container_def ex_world_def ex_article_def get_text_strip_def get_text_def strip_def
      is_space_def is_digit_def extract_date_from_text_def date_patterns_def seq_def digits_def
      alternatives_def nepali_months_def eval_nat_numeral re_search.simps)

lemma scrape_all_sites_ex: "scrape_all_sites ex_world = [ex_article]"
  using generic_item_ex scrape_ex_container
  by (simp add: scrape_all_sites_def TARGET_URLS_def scrape_site_def scrape_narc_news_def
      scrape_generic_news_def container_selectors_def select_def List.map_filter_simps
      ex_world_def)

lemma scrape_all_sites_fetch:
  "fetch w = fetch w' \<Longrightarrow> urljoin w = urljoin w' \<Longrightarrow> date_parse w = date_parse w' \<Longrightarrow>
   scrape_now w = scrape_now w' \<Longrightarrow> first_date w = first_date w'"
proof (intro ext)
  fix item sels
  assume "fetch w = fetch w'" "urljoin w = urljoin w'" "date_parse w = date_parse w'"
    "scrape_now w = scrape_now w'"
  then show "first_date w item sels = first_date w' item sels"
    by (induction sels) (auto split: option.splits)
qed

lemma scrape_all_sites_cong:
  assumes "fetch w = fetch w'" "urljoin w = urljoin w'" "date_parse w = date_parse w'"
    "scrape_now w = scrape_now w'"
  shows "scrape_all_sites w = scrape_all_sites w'"
proof -
  have fd: "first_date w = first_date w'" by (rule scrape_all_sites_fetch [OF assms])
  have j: "joined w = joined w'"
    by (intro ext) (simp add: joined_def assms cong: option.case_cong if_cong)
  have g: "generic_item w = generic_item w'"
    by (intro ext) (simp add: generic_item_def j fd assms cong: option.case_cong sum.case_cong if_cong)
  have n: "narc_item w = narc_item w'"
    by (intro ext) (simp add: narc_item_def j assms cong: option.case_cong sum.case_cong if_cong)
  have "scrape_site w = scrape_site w'"
    by (intro ext)
       (simp add: scrape_site_def scrape_narc_news_def scrape_generic_news_def g n assms
          split: prod.splits cong: sum.case_cong if_cong)
  then show ?thesis by (simp add: scrape_all_sites_def)
qed

lemma scrape_all_sites_silent:
  "(\<And>u. \<exists>e. fetch w u = Inl e) \<Longrightarrow> scrape_all_sites w = []"
proof -
  assume a: "\<And>u. \<exists>e. fetch w u = Inl e"
  have "scrape_site w s = []" for s
  proof -
    obtain n u t where s: "s = (n, u, t)" by (cases s) auto
    from a [of u] obtain e where "fetch w u = Inl e" by blast
    then show ?thesis
      by (simp add: s scrape_site_def scrape_narc_news_def scrape_generic_news_def)
  qed
  then show ?thesis by (simp add: scrape_all_sites_def)
qed

lemma upsert_article_journal:
  "\<exists>rest. journal (fst (upsert_article c a cat i)) = journal c @ SelectId (url a) # rest \<and>
          (\<forall>s \<in> set rest. is_upsert_statement s \<and> \<not> is_select_id s)"
  by (auto simp: upsert_article_def cursor_execute_def split: option.splits sum.splits)

lemma upsert_article_raises [simp]: "raises (fst (upsert_article c a cat i)) = raises c"
  by (auto simp: upsert_article_def cursor_execute_def split: option.splits sum.splits)

lemma upsert_article_failed:
  assumes "raises c (SelectId (url a)) = Some e"
  shows "upsert_article c a cat i = (c\<lparr>journal := journal c @ [SelectId (url a)]\<rparr>, False)"
  using assms by (simp add: upsert_article_def cursor_execute_def)

lemma process_articles_journal:
  "\<exists>ups. journal (fst (process_articles w k as c st)) = journal c @ ups \<and>
         (\<forall>s \<in> set ups. is_upsert_statement s) \<and>
         filter is_select_id ups = map (\<lambda>a. SelectId (url a)) as"
proof (induction as arbitrary: k c st)
  case Nil
  show ?case by simp
next
  case (Cons a as)
  let ?cat = "categorize_article (loaded_classifier w) (title a) (content a)"
  let ?c' = "fst (upsert_article c a ?cat (uuid4 w k))"
  let ?new = "snd (upsert_article c a ?cat (uuid4 w k))"
  let ?st' = "if ?new then st\<lparr>new_articles := new_articles st + 1\<rparr>
              else st\<lparr>updated_articles := updated_articles st + 1\<rparr>"
  have step: "process_articles w k (a # as) c st = process_articles w (Suc k) as ?c' ?st'"
    by (simp add: Let_def split: prod.splits)
  from upsert_article_journal [of c a ?cat "uuid4 w k"]
  obtain rest where rest: "journal ?c' = journal c @ SelectId (url a) # rest"
    "\<forall>s \<in> set rest. is_upsert_statement s \<and> \<not> is_select_id s" by blast
  from Cons.IH [of "Suc k" ?c' ?st']
  obtain ups where ups: "journal (fst (process_articles w (Suc k) as ?c' ?st')) = journal ?c' @ ups"
    "\<forall>s \<in> set ups. is_upsert_statement s"
    "filter is_select_id ups = map (\<lambda>a. SelectId (url a)) as" by blast
  have f: "filter is_select_id rest = []"
    using rest(2) by (simp add: filter_empty_conv)
  show ?case
    unfolding step
    using rest ups f by (intro exI [of _ "SelectId (url a) # rest @ ups"]) auto
qed

lemma process_articles_raises [simp]:
  "raises (fst (process_articles w k as c st)) = raises c"
proof (induction as arbitrary: k c st)
  case Nil
  show ?case by simp
next
  case (Cons a as)
  show ?case by (simp add: Let_def Cons.IH split: prod.splits)
       (metis Cons.IH fst_conv upsert_article_raises)
qed

lemma deactivate_old_articles_journal:
  "journal (deactivate_old_articles c now) = journal c @ [DeactivateOld (now - timedelta_days 7)]"
  by (simp add: deactivate_old_articles_def cursor_execute_def Let_def split: option.splits)

lemma deactivate_old_articles_none_stale:
  assumes "raises c (DeactivateOld (now - timedelta_days 7)) = None"
  shows "\<forall>r \<in> set (news (deactivate_old_articles c now)). \<not> stale (now - timedelta_days 7) r"
  using deactivate_old_none_stale [of "news c" "now - timedelta_days 7" "db_now c"]
  by (simp add: deactivate_old_articles_ok(1) [OF assms])

lemma get_summary_stats_conn:
  "news (fst (get_summary_stats c now)) = news c \<and>
   (\<exists>qs. journal (fst (get_summary_stats c now)) = journal c @ qs \<and>
         (\<forall>s \<in> set qs. is_summary_query s))"
  by (auto simp: get_summary_stats_def cursor_execute_def Let_def split: option.splits)

lemma upsert_article_committed [simp]: "committed (fst (upsert_article c a cat i)) = committed c"
  by (auto simp: upsert_article_def cursor_execute_def split: option.splits sum.splits)

lemma process_articles_committed [simp]:
  "committed (fst (process_articles w k as c st)) = committed c"
proof (induction as arbitrary: k c st)
  case Nil
  show ?case by simp
next
  case (Cons a as)
  show ?case by (simp add: Let_def Cons.IH split: prod.splits)
       (metis Cons.IH fst_conv upsert_article_committed)
qed

lemma deactivate_old_articles_keeps [simp]:
  "raises (deactivate_old_articles c now) = raises c"
  "committed (deactivate_old_articles c now) = committed c"
  by (simp_all add: deactivate_old_articles_def cursor_execute_def Let_def split: option.splits)

lemma get_summary_stats_keeps [simp]:
  "raises (fst (get_summary_stats c now)) = raises c"
  "committed (fst (get_summary_stats c now)) = committed c"
  by (auto simp: get_summary_stats_def cursor_execute_def Let_def split: option.splits)

lemma run_connected:
  assumes "setup_database w = None" "scrape_all_sites w \<noteq> []" "connect w = Inr c0"
    and "process_articles w 0 (scrape_all_sites w) c0 initial_stats = (c1, st)"
    and "get_summary_stats (deactivate_old_articles c1 (deactivate_now w)) (summary_now w) = (c3, sm)"
  shows "run_news_pipeline w =
     Inr \<lparr>final_stats = (case raises c3 Commit of None \<Rightarrow> st
                          | Some e \<Rightarrow> st\<lparr>errors := errors st + 1\<rparr>),
          connection = Some (fst (conn_commit c3)),
          logged = (case raises c3 Commit of None \<Rightarrow> [PipelineSummary st sm]
                    | Some e \<Rightarrow> [PipelineFailed e])\<rparr>"
  using assms
  by (simp add: run_news_pipeline_def pipeline_body_def conn_commit_def Let_def
      split: option.splits del: process_articles.simps)

text \<open>
  C2: the code does not do what the claim says. The scrape yields one candidate and the
  connection drops while \<^verbatim>\<open>upsert_article\<close> looks its URL up; the exception is caught
  inside \<^verbatim>\<open>upsert_article\<close>, which returns \<^verbatim>\<open>False\<close>, and the run counts the candidate
  as updated: the error counter stays 0 although nothing was stored. The loop is not
  aborted: the run goes on to the deactivation and the summary.
\<close>

theorem persistence_error_counted_as_updated:
  "scrape_all_sites ex_failing_world = [ex_article] \<and>
   connect ex_failing_world = Inr ex_dropping_conn \<and>
   raises ex_dropping_conn (SelectId (url ex_article))
     = Some ''server closed the connection unexpectedly'' \<and>
   upsert_article ex_dropping_conn ex_article ''uncategorized'' ''id-1''
     = (ex_dropping_conn\<lparr>journal := [SelectId ''https://krishidaily.com/rice'']\<rparr>, False) \<and>
   run_news_pipeline ex_failing_world =
      Inr \<lparr>final_stats = \<lparr>new_articles = 0, updated_articles = 1, errors = 0\<rparr>,
           connection = Some (ex_dropping_conn\<lparr>journal :=
              [SelectId ''https://krishidaily.com/rice'',
               DeactivateOld (1710500000000000 - timedelta_days 7),
               CategoryCounts, TotalActive, TodayCount (date_of 1710500000000000), Commit]\<rparr>),
           logged = [PipelineSummary \<lparr>new_articles = 0, updated_articles = 1, errors = 0\<rparr>
                       (Some \<lparr>total_active = 0, today_count = 0, category_stats = []\<rparr>)]\<rparr> \<and>
   news ex_dropping_conn = []"
proof -
  have s: "scrape_all_sites ex_failing_world = [ex_article]"
    using scrape_all_sites_cong [of ex_failing_world ex_world] scrape_all_sites_ex
    by (simp add: ex_failing_world_def)
  have u: "url ex_article = ''https://krishidaily.com/rice''"
    by (simp add: ex_article_def)
  have c: "news ex_dropping_conn = []" "journal ex_dropping_conn = []"
    "raises ex_dropping_conn (SelectId ''https://krishidaily.com/rice'')
       = Some ''server closed the connection unexpectedly''"
    "raises ex_dropping_conn (DeactivateOld t) = None"
    "raises ex_dropping_conn CategoryCounts = None"
    "raises ex_dropping_conn TotalActive = None"
    "raises ex_dropping_conn (TodayCount d) = None"
    "raises ex_dropping_conn Commit = None" for t d
    by (simp_all add: ex_dropping_conn_def ex_conn_def)
  have up: "upsert_article ex_dropping_conn ex_article ''uncategorized'' ''id-1''
     = (ex_dropping_conn\<lparr>journal := [SelectId ''https://krishidaily.com/rice'']\<rparr>, False)"
    by (simp add: upsert_article_failed [of _ _ "''server closed the connection unexpectedly''"] u c)
  have w: "setup_database ex_failing_world = None"
    "loaded_classifier ex_failing_world = None"
    "uuid4 ex_failing_world 0 = ''id-1''"
    "deactivate_now ex_failing_world = 1710500000000000"
    "summary_now ex_failing_world = 1710500000000000"
    "connect ex_failing_world = Inr ex_dropping_conn"
    by (simp_all add: ex_failing_world_def ex_world_def)
  have p: "process_articles ex_failing_world 0 [ex_article] ex_dropping_conn initial_stats
      = (ex_dropping_conn\<lparr>journal := [SelectId ''https://krishidaily.com/rice'']\<rparr>,
         \<lparr>new_articles = 0, updated_articles = 1, errors = 0\<rparr>)"
    by (simp add: w up categorize_article_def initial_stats_def)
  have d: "deactivate_old_articles
        (ex_dropping_conn\<lparr>journal := [SelectId ''https://krishidaily.com/rice'']\<rparr>) 1710500000000000
      = ex_dropping_conn\<lparr>journal := [SelectId ''https://krishidaily.com/rice'',
               DeactivateOld (1710500000000000 - timedelta_days 7)]\<rparr>"
    by (simp add: deactivate_old_articles_def cursor_execute_def deactivate_old_def c Let_def)
  have g: "get_summary_stats
        (ex_dropping_conn\<lparr>journal := [SelectId ''https://krishidaily.com/rice'',
               DeactivateOld (1710500000000000 - timedelta_days 7)]\<rparr>) 1710500000000000
      = (ex_dropping_conn\<lparr>journal := [SelectId ''https://krishidaily.com/rice'',
               DeactivateOld (1710500000000000 - timedelta_days 7),
               CategoryCounts, TotalActive, TodayCount (date_of 1710500000000000)]\<rparr>,
         Some \<lparr>total_active = 0, today_count = 0, category_stats = []\<rparr>)"
    by (simp add: get_summary_stats_def cursor_execute_def category_counts_def c Let_def)
  have run: "run_news_pipeline ex_failing_world =
      Inr \<lparr>final_stats = \<lparr>new_articles = 0, updated_articles = 1, errors = 0\<rparr>,
           connection = Some (ex_dropping_conn\<lparr>journal :=
              [SelectId ''https://krishidaily.com/rice'',
               DeactivateOld (1710500000000000 - timedelta_days 7),
               CategoryCounts, TotalActive, TodayCount (date_of 1710500000000000), Commit]\<rparr>),
           logged = [PipelineSummary \<lparr>new_articles = 0, updated_articles = 1, errors = 0\<rparr>
                       (Some \<lparr>total_active = 0, today_count = 0, category_stats = []\<rparr>)]\<rparr>"
    by (simp add: run_news_pipeline_def pipeline_body_def s w p d g conn_commit_def c
        del: process_articles.simps)
       (simp add: ex_dropping_conn_def ex_conn_def)
  show ?thesis
    using s w(6) c(1,3) up run by (simp add: u)
qed

text \<open>
  C5, as stated, fails: in a run that starts successfully and in which no site answers, the
  pipeline returns after the scrape, without opening a connection; the active row
  published 8 days before the run is still active in the store.
\<close>

theorem no_candidates_no_deactivation_counterexample:
  "setup_database ex_silent_world = None \<and>
   scrape_all_sites ex_silent_world = [] \<and>
   run_news_pipeline ex_silent_world
     = Inr \<lparr>final_stats = initial_stats, connection = None, logged = [NoArticlesFound]\<rparr> \<and>
   map_sum id committed (connect ex_silent_world) = Inr [ex_old_row] \<and>
   is_active ex_old_row \<and>
   publish_date ex_old_row = Some (deactivate_now ex_silent_world - timedelta_days 8)"
proof -
  have s: "scrape_all_sites ex_silent_world = []"
    by (rule scrape_all_sites_silent) (simp add: ex_silent_world_def)
  have w: "setup_database ex_silent_world = None"
    by (simp add: ex_silent_world_def ex_world_def)
  show ?thesis
    by (simp add: s w run_news_pipeline_def pipeline_body_def)
       (simp add: ex_silent_world_def ex_world_def ex_old_row_def new_row_def)
qed

text \<open>
  C5, amended. In every run in which the setup succeeds, the scrape yields at least one
  candidate and the connection opens, the deactivation statement is sent exactly once,
  after one upsert for every candidate and before the summary queries and the commit. When
  every statement of the run and the commit execute, the run completes, the store takes the
  table of the run, and it holds no active row published more than 7 days before the
  deactivation. When the commit raises, the run is logged as failed and the store keeps the
  table it held before the run. A run whose scrape yields no candidate returns after the
  scrape: it opens no connection and sends no statement.
\<close>

theorem deactivation_after_upserts:
  "(setup_database w = None \<and> scrape_all_sites w = [] \<longrightarrow>
      run_news_pipeline w
        = Inr \<lparr>final_stats = initial_stats, connection = None, logged = [NoArticlesFound]\<rparr>) \<and>
   (setup_database w = None \<and> scrape_all_sites w \<noteq> [] \<and> connect w = Inr c0 \<longrightarrow>
      (\<exists>r c ups qs.
         run_news_pipeline w = Inr r \<and> connection r = Some c \<and>
         journal c = journal c0 @ ups @ [DeactivateOld (deactivate_now w - timedelta_days 7)]
                       @ qs @ [Commit] \<and>
         (\<forall>s \<in> set ups. is_upsert_statement s) \<and>
         filter is_select_id ups = map (\<lambda>a. SelectId (url a)) (scrape_all_sites w) \<and>
         (\<forall>s \<in> set qs. is_summary_query s) \<and>
         ((\<forall>s \<in> set (ups @ [DeactivateOld (deactivate_now w - timedelta_days 7)] @ qs @ [Commit]).
              raises c0 s = None) \<longrightarrow>
            (\<exists>sm. logged r = [PipelineSummary (final_stats r) sm]) \<and>
            committed c = news c \<and>
            (\<forall>x \<in> set (committed c).
               \<not> (is_active x \<and>
                  (\<exists>d. publish_date x = Some d \<and> d < deactivate_now w - timedelta_days 7)))) \<and>
         (\<forall>e. raises c0 Commit = Some e \<longrightarrow>
            logged r = [PipelineFailed e] \<and> committed c = committed c0 \<and> news c = committed c0)))"
proof (intro conjI impI)
  assume "setup_database w = None \<and> scrape_all_sites w = []"
  then show "run_news_pipeline w
        = Inr \<lparr>final_stats = initial_stats, connection = None, logged = [NoArticlesFound]\<rparr>"
    by (simp add: run_news_pipeline_def pipeline_body_def)
next
  assume a: "setup_database w = None \<and> scrape_all_sites w \<noteq> [] \<and> connect w = Inr c0"
  let ?cut = "deactivate_now w - timedelta_days 7"
  obtain c1 st where p: "process_articles w 0 (scrape_all_sites w) c0 initial_stats = (c1, st)"
    by (cases "process_articles w 0 (scrape_all_sites w) c0 initial_stats") auto
  let ?c2 = "deactivate_old_articles c1 (deactivate_now w)"
  obtain c3 sm where g: "get_summary_stats ?c2 (summary_now w) = (c3, sm)"
    by (cases "get_summary_stats ?c2 (summary_now w)") auto
  let ?c4 = "fst (conn_commit c3)"
  let ?r = "\<lparr>final_stats = (case raises c3 Commit of None \<Rightarrow> st
                          | Some e \<Rightarrow> st\<lparr>errors := errors st + 1\<rparr>),
          connection = Some ?c4,
          logged = (case raises c3 Commit of None \<Rightarrow> [PipelineSummary st sm]
                    | Some e \<Rightarrow> [PipelineFailed e])\<rparr>"
  have r: "run_news_pipeline w = Inr ?r"
    using a by (intro run_connected [OF _ _ _ p g]) simp_all
  have c1: "c1 = fst (process_articles w 0 (scrape_all_sites w) c0 initial_stats)"
    by (simp add: p)
  have c3: "c3 = fst (get_summary_stats ?c2 (summary_now w))"
    by (simp add: g)
  have rs: "raises c1 = raises c0" "raises c3 = raises c0"
    and cm: "committed c3 = committed c0"
    by (simp_all add: c1 c3)
  from process_articles_journal [of w 0 "scrape_all_sites w" c0 initial_stats]
  obtain ups where ups: "journal c1 = journal c0 @ ups"
    "\<forall>s \<in> set ups. is_upsert_statement s"
    "filter is_select_id ups = map (\<lambda>a. SelectId (url a)) (scrape_all_sites w)"
    unfolding c1 by blast
  have j2: "journal ?c2 = journal c1 @ [DeactivateOld ?cut]"
    by (rule deactivate_old_articles_journal)
  from get_summary_stats_conn [of ?c2 "summary_now w"]
  obtain qs where qs: "news c3 = news ?c2" "journal c3 = journal ?c2 @ qs"
    "\<forall>s \<in> set qs. is_summary_query s"
    unfolding c3 by blast
  have j4: "journal ?c4 = journal c0 @ ups @ [DeactivateOld ?cut] @ qs @ [Commit]"
    by (simp add: conn_commit_def qs(2) j2 ups(1) split: option.splits)
  have completed: "(\<forall>s \<in> set (ups @ [DeactivateOld ?cut] @ qs @ [Commit]). raises c0 s = None) \<longrightarrow>
       (\<exists>sm. logged ?r = [PipelineSummary (final_stats ?r) sm]) \<and>
       committed ?c4 = news ?c4 \<and>
       (\<forall>x \<in> set (committed ?c4).
          \<not> (is_active x \<and> (\<exists>d. publish_date x = Some d \<and> d < ?cut)))"
  proof
    assume all: "\<forall>s \<in> set (ups @ [DeactivateOld ?cut] @ qs @ [Commit]). raises c0 s = None"
    then have d: "raises c1 (DeactivateOld ?cut) = None" and k: "raises c3 Commit = None"
      by (simp_all add: rs)
    from deactivate_old_articles_none_stale [OF d]
    have "\<forall>x \<in> set (news ?c2). \<not> stale ?cut x" .
    then have clean: "\<forall>x \<in> set (news c3).
          \<not> (is_active x \<and> (\<exists>d. publish_date x = Some d \<and> d < ?cut))"
      by (auto simp: qs(1) stale_def)
    show "(\<exists>sm. logged ?r = [PipelineSummary (final_stats ?r) sm]) \<and>
       committed ?c4 = news ?c4 \<and>
       (\<forall>x \<in> set (committed ?c4).
          \<not> (is_active x \<and> (\<exists>d. publish_date x = Some d \<and> d < ?cut)))"
      using clean by (simp add: k conn_commit_def)
  qed
  have failed: "\<forall>e. raises c0 Commit = Some e \<longrightarrow>
       logged ?r = [PipelineFailed e] \<and> committed ?c4 = committed c0 \<and> news ?c4 = committed c0"
    by (simp add: rs cm conn_commit_def)
  show "\<exists>r c ups qs.
         run_news_pipeline w = Inr r \<and> connection r = Some c \<and>
         journal c = journal c0 @ ups @ [DeactivateOld ?cut] @ qs @ [Commit] \<and>
         (\<forall>s \<in> set ups. is_upsert_statement s) \<and>
         filter is_select_id ups = map (\<lambda>a. SelectId (url a)) (scrape_all_sites w) \<and>
         (\<forall>s \<in> set qs. is_summary_query s) \<and>
         ((\<forall>s \<in> set (ups @ [DeactivateOld ?cut] @ qs @ [Commit]). raises c0 s = None) \<longrightarrow>
            (\<exists>sm. logged r = [PipelineSummary (final_stats r) sm]) \<and>
            committed c = news c \<and>
            (\<forall>x \<in> set (committed c).
               \<not> (is_active x \<and> (\<exists>d. publish_date x = Some d \<and> d < ?cut)))) \<and>
         (\<forall>e. raises c0 Commit = Some e \<longrightarrow>
            logged r = [PipelineFailed e] \<and> committed c = committed c0 \<and> news c = committed c0)"
  proof (rule exI [of _ ?r], rule exI [of _ ?c4], rule exI [of _ ups], rule exI [of _ qs])
    have cr: "connection ?r = Some ?c4" by simp
    show "run_news_pipeline w = Inr ?r \<and> connection ?r = Some ?c4 \<and>
         journal ?c4 = journal c0 @ ups @ [DeactivateOld ?cut] @ qs @ [Commit] \<and>
         (\<forall>s \<in> set ups. is_upsert_statement s) \<and>
         filter is_select_id ups = map (\<lambda>a. SelectId (url a)) (scrape_all_sites w) \<and>
         (\<forall>s \<in> set qs. is_summary_query s) \<and>
         ((\<forall>s \<in> set (ups @ [DeactivateOld ?cut] @ qs @ [Commit]). raises c0 s = None) \<longrightarrow>
            (\<exists>sm. logged ?r = [PipelineSummary (final_stats ?r) sm]) \<and>
            committed ?c4 = news ?c4 \<and>
            (\<forall>x \<in> set (committed ?c4).
               \<not> (is_active x \<and> (\<exists>d. publish_date x = Some d \<and> d < ?cut)))) \<and>
         (\<forall>e. raises c0 Commit = Some e \<longrightarrow>
            logged ?r = [PipelineFailed e] \<and> committed ?c4 = committed c0 \<and>
            news ?c4 = committed c0)"
      using r cr j4 ups(2,3) qs(3) completed failed by (intro conjI)
  qed
qed

theorem deactivation_after_upserts_witness:
  "run_news_pipeline ex_silent_world
     = Inr \<lparr>final_stats = initial_stats, connection = None, logged = [NoArticlesFound]\<rparr> \<and>
   (\<exists>r c ups qs sm.
      run_news_pipeline ex_stale_world = Inr r \<and> connection r = Some c \<and>
      journal c = ups @ [DeactivateOld (1710500000000000 - timedelta_days 7)] @ qs @ [Commit] \<and>
      list_all is_upsert_statement ups \<and>
      filter is_select_id ups = [SelectId ''https://krishidaily.com/rice''] \<and>
      list_all is_summary_query qs \<and>
      logged r = [PipelineSummary (final_stats r) sm] \<and>
      committed c = news c \<and>
      list_all (\<lambda>x. \<not> (is_active x \<and>
                 (\<exists>d. publish_date x = Some d \<and> d < 1710500000000000 - timedelta_days 7)))
        (committed c)) \<and>
   (\<exists>r c.
      run_news_pipeline ex_commit_failure_world = Inr r \<and> connection r = Some c \<and>
      logged r = [PipelineFailed ''connection already closed''] \<and>
      committed c = [ex_old_row, ex_recent_row])"
proof -
  let ?c0 = "ex_conn\<lparr>news := [ex_old_row, ex_recent_row],
                     committed := [ex_old_row, ex_recent_row]\<rparr>"
  let ?f0 = "ex_conn\<lparr>news := [ex_old_row, ex_recent_row],
                     committed := [ex_old_row, ex_recent_row],
                     raises := (\<lambda>s. if s = Commit then Some ''connection already closed''
                                     else None)\<rparr>"
  have silent: "setup_database ex_silent_world = None \<and> scrape_all_sites ex_silent_world = []"
    using scrape_all_sites_silent [of ex_silent_world]
    by (simp add: ex_silent_world_def ex_world_def)
  have s: "scrape_all_sites ex_stale_world = [ex_article]"
    using scrape_all_sites_cong [of ex_stale_world ex_world] scrape_all_sites_ex
    by (simp add: ex_stale_world_def)
  have h: "setup_database ex_stale_world = None \<and> scrape_all_sites ex_stale_world \<noteq> [] \<and>
      connect ex_stale_world = Inr ?c0"
    by (simp add: s) (simp add: ex_stale_world_def ex_world_def)
  have sf: "scrape_all_sites ex_commit_failure_world = [ex_article]"
    using scrape_all_sites_cong [of ex_commit_failure_world ex_world] scrape_all_sites_ex
    by (simp add: ex_commit_failure_world_def)
  have hf: "setup_database ex_commit_failure_world = None \<and>
      scrape_all_sites ex_commit_failure_world \<noteq> [] \<and>
      connect ex_commit_failure_world = Inr ?f0"
    by (simp add: sf) (simp add: ex_commit_failure_world_def ex_world_def)
  have v: "deactivate_now ex_stale_world = 1710500000000000"
    "journal ex_conn = []"
    "raises ex_conn x = None"
    "url ex_article = ''https://krishidaily.com/rice''" for x
    by (simp_all add: ex_stale_world_def ex_world_def ex_conn_def ex_article_def)
  from deactivation_after_upserts [of ex_silent_world] silent
  have a: "run_news_pipeline ex_silent_world
     = Inr \<lparr>final_stats = initial_stats, connection = None, logged = [NoArticlesFound]\<rparr>"
    by blast
  from deactivation_after_upserts [of ex_stale_world ?c0] h
  have b': "\<exists>r c ups qs sm.
      run_news_pipeline ex_stale_world = Inr r \<and> connection r = Some c \<and>
      journal c = ups @ [DeactivateOld (1710500000000000 - timedelta_days 7)] @ qs @ [Commit] \<and>
      list_all is_upsert_statement ups \<and>
      filter is_select_id ups = [SelectId ''https://krishidaily.com/rice''] \<and>
      list_all is_summary_query qs \<and>
      logged r = [PipelineSummary (final_stats r) sm] \<and>
      committed c = news c \<and>
      list_all (\<lambda>x. \<not> (is_active x \<and>
                 (\<exists>d. publish_date x = Some d \<and> d < 1710500000000000 - timedelta_days 7)))
        (committed c)"
    by (simp add: s v list_all_iff)
  from deactivation_after_upserts [of ex_commit_failure_world ?f0] hf
  have f: "\<exists>r c.
      run_news_pipeline ex_commit_failure_world = Inr r \<and> connection r = Some c \<and>
      logged r = [PipelineFailed ''connection already closed''] \<and>
      committed c = [ex_old_row, ex_recent_row]"
    by simp blast
  from a b' f show ?thesis by (intro conjI)
qed

section \<open>The pipeline never raises\<close>

text \<open>
  C10. \<^verbatim>\<open>run_news_pipeline\<close> never passes an exception on to its caller: it always
  returns. Whatever exception leaves its \<^verbatim>\<open>try\<close> block is caught, logged as a pipeline
  failure and counted as one error. In particular, when \<^verbatim>\<open>setup_database\<close> fails (store
  unreachable) or the connection cannot be opened after the scrape, the run logs that
  exception and returns with one error and no connection.
\<close>

theorem run_news_pipeline_returns:
  "(\<exists>r. run_news_pipeline w = Inr r) \<and>
   (\<forall>e st c. pipeline_body w = Inl (e, st, c) \<longrightarrow>
      run_news_pipeline w
        = Inr \<lparr>final_stats = st\<lparr>errors := errors st + 1\<rparr>, connection = c,
               logged = [PipelineFailed e]\<rparr>) \<and>
   (\<forall>e. setup_database w = Some e \<longrightarrow>
      run_news_pipeline w
        = Inr \<lparr>final_stats = \<lparr>new_articles = 0, updated_articles = 0, errors = 1\<rparr>,
               connection = None, logged = [PipelineFailed e]\<rparr>) \<and>
   (\<forall>e. setup_database w = None \<and> scrape_all_sites w \<noteq> [] \<and> connect w = Inl e \<longrightarrow>
      run_news_pipeline w
        = Inr \<lparr>final_stats = \<lparr>new_articles = 0, updated_articles = 0, errors = 1\<rparr>,
               connection = None, logged = [PipelineFailed e]\<rparr>)"
proof (intro conjI allI impI)
  show "\<exists>r. run_news_pipeline w = Inr r"
    by (cases "pipeline_body w") (auto simp: run_news_pipeline_def)
next
  fix e st c assume "pipeline_body w = Inl (e, st, c)"
  then show "run_news_pipeline w
        = Inr \<lparr>final_stats = st\<lparr>errors := errors st + 1\<rparr>, connection = c,
               logged = [PipelineFailed e]\<rparr>"
    by (simp add: run_news_pipeline_def)
next
  fix e assume "setup_database w = Some e"
  then show "run_news_pipeline w
        = Inr \<lparr>final_stats = \<lparr>new_articles = 0, updated_articles = 0, errors = 1\<rparr>,
               connection = None, logged = [PipelineFailed e]\<rparr>"
    by (simp add: run_news_pipeline_def pipeline_body_def initial_stats_def)
next
  fix e assume "setup_database w = None \<and> scrape_all_sites w \<noteq> [] \<and> connect w = Inl e"
  then show "run_news_pipeline w
        = Inr \<lparr>final_stats = \<lparr>new_articles = 0, updated_articles = 0, errors = 1\<rparr>,
               connection = None, logged = [PipelineFailed e]\<rparr>"
    by (simp add: run_news_pipeline_def pipeline_body_def initial_stats_def)
qed

theorem run_news_pipeline_returns_witness:
  "run_news_pipeline ex_setup_failure_world
     = Inr \<lparr>final_stats = \<lparr>new_articles = 0, updated_articles = 0, errors = 1\<rparr>,
            connection = None,
            logged = [PipelineFailed ''could not connect to server: Connection refused'']\<rparr> \<and>
   run_news_pipeline ex_unreachable_world
     = Inr \<lparr>final_stats = \<lparr>new_articles = 0, updated_articles = 0, errors = 1\<rparr>,
            connection = None,
            logged = [PipelineFailed ''FATAL: password authentication failed for user postgres'']\<rparr>"
proof -
  have a: "setup_database ex_setup_failure_world
      = Some ''could not connect to server: Connection refused''"
    by (simp add: ex_setup_failure_world_def)
  have s: "scrape_all_sites ex_unreachable_world = [ex_article]"
    using scrape_all_sites_cong [of ex_unreachable_world ex_world] scrape_all_sites_ex
    by (simp add: ex_unreachable_world_def)
  have b: "setup_database ex_unreachable_world = None \<and>
      scrape_all_sites ex_unreachable_world \<noteq> [] \<and>
      connect ex_unreachable_world
        = Inl ''FATAL: password authentication failed for user postgres''"
    by (simp add: s) (simp add: ex_unreachable_world_def ex_world_def)
  from run_news_pipeline_returns [of ex_setup_failure_world] a
    run_news_pipeline_returns [of ex_unreachable_world] b
  show ?thesis by blast
qed

section \<open>API failures\<close>

lemma get_news_success_flag:
  "field (fst (get_news w a b)) ''success'' = Some (JBool (snd (get_news w a b) = 200))"
  by (simp add: get_news_def error_response_def field_def Let_def
      split: sum.splits option.splits prod.splits)

lemma get_categories_success_flag:
  "field (fst (get_categories w)) ''success'' = Some (JBool (snd (get_categories w) = 200))"
  by (simp add: get_categories_def error_response_def field_def
      split: sum.splits option.splits prod.splits)

text \<open>
  C7, as stated, fails: when the connection is refused, the body \<^verbatim>\<open>GET /api/news\<close> and
  \<^verbatim>\<open>GET /api/categories\<close> return carries the text of the exception, verbatim, under the key
  \<^verbatim>\<open>error\<close>.
\<close>

theorem api_error_text_counterexample:
  "connect ex_unreachable_world = Inl ''FATAL: password authentication failed for user postgres'' \<and>
   get_news ex_unreachable_world None None
     = (JObj [(''success'', JBool False),
              (''error'', JStr ''FATAL: password authentication failed for user postgres'')], 500) \<and>
   get_categories ex_unreachable_world
     = (JObj [(''success'', JBool False),
              (''error'', JStr ''FATAL: password authentication failed for user postgres'')], 500)"
  by (simp add: get_news_def get_categories_def error_response_def ex_unreachable_world_def
      ex_world_def)

text \<open>
  C7, amended. For every internal failure during a read-API request (the connection
  cannot be opened, the \<^verbatim>\<open>limit\<close> argument is not an integer, the query raises, the limit
  is negative), \<^verbatim>\<open>GET /api/news\<close> and \<^verbatim>\<open>GET /api/categories\<close> return status 500 with a
  body whose \<^verbatim>\<open>success\<close> is false and whose \<^verbatim>\<open>error\<close> is the text of the exception. The
  flag \<^verbatim>\<open>success\<close> is true exactly when the status is 200.
\<close>

theorem api_failure_response:
  "(connect w = Inl e \<longrightarrow>
      get_news w category_arg limit_arg = error_response e \<and> get_categories w = error_response e) \<and>
   (connect w = Inr c \<and> py_int w v = Inl e \<longrightarrow>
      get_news w category_arg (Some v) = error_response e) \<and>
   (connect w = Inr c \<and> (case limit_arg of None \<Rightarrow> Inr 10 | Some v \<Rightarrow> py_int w v) = Inr n \<and>
    raises c (SelectNews (case category_arg of None \<Rightarrow> None
                          | Some k \<Rightarrow> if k = [] then None else Some k) n) = Some e \<longrightarrow>
      get_news w category_arg limit_arg = error_response e) \<and>
   (connect w = Inr c \<and> (case limit_arg of None \<Rightarrow> Inr 10 | Some v \<Rightarrow> py_int w v) = Inr n \<and>
    raises c (SelectNews (case category_arg of None \<Rightarrow> None
                          | Some k \<Rightarrow> if k = [] then None else Some k) n) = None \<and> n < 0 \<longrightarrow>
      get_news w category_arg limit_arg = error_response ''LIMIT must not be negative'') \<and>
   (connect w = Inr c \<and> raises c CategoryCounts = Some e \<longrightarrow>
      get_categories w = error_response e) \<and>
   snd (error_response e) = 500 \<and>
   field (fst (error_response e)) ''success'' = Some (JBool False) \<and>
   field (fst (error_response e)) ''error'' = Some (JStr e) \<and>
   field (fst (get_news w category_arg limit_arg)) ''success''
     = Some (JBool (snd (get_news w category_arg limit_arg) = 200)) \<and>
   field (fst (get_categories w)) ''success'' = Some (JBool (snd (get_categories w) = 200))"
proof -
  have 1: "connect w = Inl e \<longrightarrow>
      get_news w category_arg limit_arg = error_response e \<and> get_categories w = error_response e"
    by (simp add: get_news_def get_categories_def)
  have 2: "connect w = Inr c \<and> py_int w v = Inl e \<longrightarrow>
      get_news w category_arg (Some v) = error_response e"
    by (simp add: get_news_def)
  have 3: "connect w = Inr c \<and> (case limit_arg of None \<Rightarrow> Inr 10 | Some v \<Rightarrow> py_int w v) = Inr n \<and>
    raises c (SelectNews (case category_arg of None \<Rightarrow> None
                          | Some k \<Rightarrow> if k = [] then None else Some k) n) = Some e \<longrightarrow>
      get_news w category_arg limit_arg = error_response e"
    by (simp add: get_news_def cursor_execute_def Let_def)
  have 4: "connect w = Inr c \<and> (case limit_arg of None \<Rightarrow> Inr 10 | Some v \<Rightarrow> py_int w v) = Inr n \<and>
    raises c (SelectNews (case category_arg of None \<Rightarrow> None
                          | Some k \<Rightarrow> if k = [] then None else Some k) n) = None \<and> n < 0 \<longrightarrow>
      get_news w category_arg limit_arg = error_response ''LIMIT must not be negative''"
    by (simp add: get_news_def cursor_execute_def select_news_def Let_def)
  have 5: "connect w = Inr c \<and> raises c CategoryCounts = Some e \<longrightarrow>
      get_categories w = error_response e"
    by (simp add: get_categories_def cursor_execute_def)
  have 6: "snd (error_response e) = 500 \<and>
     field (fst (error_response e)) ''success'' = Some (JBool False) \<and>
     field (fst (error_response e)) ''error'' = Some (JStr e)"
    by (simp add: error_response_def field_def)
  from 1 2 3 4 5 6 get_news_success_flag [of w category_arg limit_arg]
    get_categories_success_flag [of w]
  show ?thesis by blast
qed

theorem api_failure_response_witness:
  "snd (get_news ex_unreachable_world None (Some ''5'')) = 500 \<and>
   field (fst (get_news ex_unreachable_world None (Some ''5''))) ''success'' = Some (JBool False) \<and>
   field (fst (get_news ex_unreachable_world None (Some ''5''))) ''error''
     = Some (JStr ''FATAL: password authentication failed for user postgres'') \<and>
   get_news ex_world None (Some ''ten'')
     = error_response ''invalid literal for int() with base 10'' \<and>
   snd (get_news ex_world None (Some ''5'')) = 200"
proof -
  have a: "connect ex_unreachable_world
      = Inl ''FATAL: password authentication failed for user postgres''"
    by (simp add: ex_unreachable_world_def)
  have b: "connect ex_world = Inr ex_conn \<and>
      py_int ex_world ''ten'' = Inl ''invalid literal for int() with base 10''"
    by (simp add: ex_world_def)
  have ok: "snd (get_news ex_world None (Some ''5'')) = 200"
    by (simp add: get_news_def ex_world_def ex_conn_def cursor_execute_def select_news_def
        by_publish_date_desc_def)
  from api_failure_response [of ex_unreachable_world
      "''FATAL: password authentication failed for user postgres''" None "Some ''5''"] a
  have 1: "get_news ex_unreachable_world None (Some ''5'')
      = error_response ''FATAL: password authentication failed for user postgres''"
    by blast
  from api_failure_response [of ex_world "''invalid literal for int() with base 10''" None
      "Some ''ten''" ex_conn "''ten''"] b
  have 2: "get_news ex_world None (Some ''ten'')
     = error_response ''invalid literal for int() with base 10''"
    by blast
  from api_failure_response [of _ "''FATAL: password authentication failed for user postgres''"]
  have 3: "snd (error_response ''FATAL: password authentication failed for user postgres'') = 500"
    "field (fst (error_response ''FATAL: password authentication failed for user postgres''))
       ''success'' = Some (JBool False)"
    "field (fst (error_response ''FATAL: password authentication failed for user postgres''))
       ''error'' = Some (JStr ''FATAL: password authentication failed for user postgres'')"
    by blast+
  from 1 2 3 ok show ?thesis by simp
qed


end
